theory Spec2Isabelle
  imports Complex_Main "HOL-Library.Log_Nat"
begin

section \<open>Typed arrays\<close>

text \<open>
  The element kinds of the integer typed arrays, as in \<^verbatim>\<open>Encoding.IntDataType\<close>
  (Int8 = 1, Int16 = 2, Int32 = 3, Uint8 = 4, Uint16 = 5, Uint32 = 6) and of the
  floating ones, \<^verbatim>\<open>Encoding.FloatDataType\<close> (Float32 = 32, Float64 = 33). A descriptor
  read from the wire carries the numeric code, which may be outside the enumeration;
  the decoders switch on the code.
\<close>

datatype IntDataType = Int8 | Int16 | Int32 | Uint8 | Uint16 | Uint32

datatype FloatDataType = Float32 | Float64

fun IntDataType_of :: "int \<Rightarrow> IntDataType option" where
  "IntDataType_of c =
     (if c = 1 then Some Int8 else if c = 2 then Some Int16 else if c = 3 then Some Int32
      else if c = 4 then Some Uint8 else if c = 5 then Some Uint16
      else if c = 6 then Some Uint32 else None)"

fun FloatDataType_of :: "int \<Rightarrow> FloatDataType option" where
  "FloatDataType_of c =
     (if c = 32 then Some Float32 else if c = 33 then Some Float64 else None)"

fun bits :: "IntDataType \<Rightarrow> nat" where
  "bits Int8 = 8" | "bits Int16 = 16" | "bits Int32 = 32"
| "bits Uint8 = 8" | "bits Uint16 = 16" | "bits Uint32 = 32"

fun is_signed :: "IntDataType \<Rightarrow> bool" where
  "is_signed Int8 = True" | "is_signed Int16 = True" | "is_signed Int32 = True"
| "is_signed Uint8 = False" | "is_signed Uint16 = False" | "is_signed Uint32 = False"

text \<open>
  Storing an integer into an integer typed array keeps it modulo \<open>2 ^ bits\<close>, read back
  as a two's complement value for the signed kinds.
\<close>

definition wrap :: "IntDataType \<Rightarrow> int \<Rightarrow> int" where
  "wrap k v =
     (if is_signed k then (v + 2 ^ (bits k - 1)) mod 2 ^ bits k - 2 ^ (bits k - 1)
      else v mod 2 ^ bits k)"

text \<open>\<^verbatim>\<open>x | 0\<close> on an integer \<open>x\<close>: ToInt32.\<close>

definition toInt32 :: "int \<Rightarrow> int" where
  "toInt32 v = wrap Int32 v"

text \<open>
  A JavaScript number: an IEEE 754 double. The finite values are the rationals they
  denote; the negative zero is a value of its own.
\<close>

datatype number = NaN | PosInfinity | NegInfinity | NegZero | Fin rat

text \<open>
  A \<^verbatim>\<open>Uint8Array\<close> of the input: a window of \<open>byteLength\<close> bytes, from \<open>byteOffset\<close>
  on, of the bytes of its \<^verbatim>\<open>buffer\<close>. Its elements are the bytes of the window.
\<close>

datatype Uint8Array =
  Uint8Array (buffer: "int list") (byteOffset: nat) (byteLength: nat)

definition bytes_of :: "Uint8Array \<Rightarrow> int list" where
  "bytes_of a = take (byteLength a) (drop (byteOffset a) (buffer a))"

text \<open>
  The arrays the decoders take and return. \<open>Bytes\<close> is a \<^verbatim>\<open>Uint8Array\<close> of the input.
  \<open>IntArray\<close> and \<open>FloatArray\<close> are the typed arrays that the decoders make, each
  spanning a buffer of its own: the element kind and the elements; an integer typed
  array holds integers in the range of its kind, and everything stored goes through
  \<open>wrap\<close>. \<open>Strings\<close> is the plain array of strings and \<^verbatim>\<open>null\<close>s that the string decoder
  returns.
\<close>

datatype jsarray =
    Bytes Uint8Array
  | IntArray IntDataType "int list"
  | FloatArray FloatDataType "number list"
  | Strings "string option list"

text \<open>
  What a call can raise: an \<^verbatim>\<open>Error\<close> with its message, thrown by the decoders, and the
  RangeError and TypeError of the language (an invalid array length, a property of
  \<^verbatim>\<open>undefined\<close> or \<^verbatim>\<open>null\<close>). \<open>OutsideSignature\<close> is no exception: it is the outcome of
  the model where a decoder is handed an array that its TypeScript signature excludes
  and whose coercions are not followed here.
\<close>

datatype error =
    Error string
  | RangeError
  | TypeError
  | OutsideSignature

text \<open>
  \<^verbatim>\<open>xs[i]\<close> is \<^verbatim>\<open>undefined\<close> past the end, and \<^verbatim>\<open>xs[i] = v\<close> on a typed array is
  ignored there.
\<close>

definition get_at :: "'a list \<Rightarrow> nat \<Rightarrow> 'a option" where
  "get_at xs i = (if i < length xs then Some (xs ! i) else None)"

definition set_at :: "'a list \<Rightarrow> nat \<Rightarrow> 'a \<Rightarrow> 'a list" where
  "set_at xs i v = (if i < length xs then xs[i := v] else xs)"

text \<open>
  \<^verbatim>\<open>getIntArray(type, size)\<close>: a zero-filled integer typed array. The constructor
  raises a RangeError on a negative length (and on one beyond what the engine can
  allocate, a bound that is not part of this model).
\<close>

definition getIntArray :: "int \<Rightarrow> int \<Rightarrow> error + jsarray" where
  "getIntArray ty sz =
     (case IntDataType_of ty of
        Some k \<Rightarrow> if sz < 0 then Inl RangeError else Inr (IntArray k (replicate (nat sz) 0))
      | None \<Rightarrow> Inl (Error ''Unsupported integer data type.''))"

section \<open>Encoding descriptors\<close>

text \<open>
  A descriptor, by its \<^verbatim>\<open>kind\<close>; \<open>OtherKind\<close> is a descriptor read from the wire whose
  \<^verbatim>\<open>kind\<close> is none of the seven strings of the type \<^verbatim>\<open>Encoding\<close>. The type codes, the
  sizes, the byte count and the origin are integers; the factor, the bounds and the
  number of steps are numbers. The fields \<^verbatim>\<open>min\<close> and \<^verbatim>\<open>max\<close> are \<open>minE\<close> and \<open>maxE\<close>.
\<close>

datatype Encoding =
    ByteArray (type: int)
  | FixedPoint (factor: number) (srcType: int)
  | IntervalQuantization (minE: number) (maxE: number) (numSteps: number) (srcType: int)
  | RunLength (srcType: int) (srcSize: int)
  | Delta (origin: int) (srcType: int)
  | IntegerPacking (byteCount: int) (isUnsigned: bool) (srcSize: int)
  | StringArray (dataEncoding: "Encoding list") (stringData: string)
      (offsetEncoding: "Encoding list") (offsets: Uint8Array)
  | OtherKind (kind: string)

section \<open>Delta\<close>

function delta_loop :: "int list \<Rightarrow> nat \<Rightarrow> nat \<Rightarrow> int list \<Rightarrow> IntDataType \<Rightarrow> int list" where
  "delta_loop data i n output k =
     (if i < n then delta_loop data (i + 1) n (output[i := wrap k (data ! i + output ! (i - 1))]) k
      else output)"
  by pat_completeness auto
termination
  by (relation "measure (\<lambda>(data, i, n, output, k). n - i)") auto

declare delta_loop.simps [simp del]

text \<open>
  \<^verbatim>\<open>delta(data, encoding)\<close>. The sums are sums of two integers below \<open>2 ^ 33\<close> in
  absolute value, which doubles hold exactly. The reads \<open>data ! i\<close> and
  \<open>output ! (i - 1)\<close> are in range: \<open>i < n\<close>, the length of both.
\<close>

definition delta :: "int list \<Rightarrow> Encoding \<Rightarrow> error + jsarray" where
  "delta data encoding =
     (let n = length data in
      case getIntArray (srcType encoding) (int n) of
        Inl e \<Rightarrow> Inl e
      | Inr (IntArray k output) \<Rightarrow>
          if n = 0 then Inr (IntArray k output)
          else Inr (IntArray k
            (delta_loop data 1 n (output[0 := wrap k (data ! 0 + toInt32 (origin encoding))]) k))
      | Inr a \<Rightarrow> Inr a)"

section \<open>RunLength\<close>

text \<open>
  The inner loop \<^verbatim>\<open>for (j = 0; j < length; ++j) output[dataOffset++] = value\<close>, by
  the number of iterations it has left.
\<close>

fun runLength_fill :: "nat \<Rightarrow> int \<Rightarrow> nat \<Rightarrow> int list \<Rightarrow> nat \<times> int list" where
  "runLength_fill 0 v dataOffset output = (dataOffset, output)"
| "runLength_fill (Suc c) v dataOffset output =
     runLength_fill c v (dataOffset + 1) (set_at output dataOffset v)"

text \<open>
  The outer loop over the pairs. \<^verbatim>\<open>data[i + 1]\<close> is \<^verbatim>\<open>undefined\<close> when the input has
  odd length, and \<^verbatim>\<open>j < undefined\<close> is false: nothing is emitted for the last value.
  A negative length emits nothing either.
\<close>

function runLength_loop :: "int list \<Rightarrow> IntDataType \<Rightarrow> nat \<Rightarrow> nat \<Rightarrow> int list \<Rightarrow> int list" where
  "runLength_loop data k i dataOffset output =
     (if i < length data then
        (let v = data ! i;
             count = (case get_at data (i + 1) of None \<Rightarrow> 0 | Some l \<Rightarrow> nat l)
         in case runLength_fill count (wrap k v) dataOffset output of
              (dataOffset', output') \<Rightarrow> runLength_loop data k (i + 2) dataOffset' output')
      else output)"
  by pat_completeness auto
termination
  by (relation "measure (\<lambda>(data, k, i, dataOffset, output). length data - i)") auto

declare runLength_loop.simps [simp del]

definition runLength :: "int list \<Rightarrow> Encoding \<Rightarrow> error + jsarray" where
  "runLength data encoding =
     (case getIntArray (srcType encoding) (srcSize encoding) of
        Inl e \<Rightarrow> Inl e
      | Inr (IntArray k output) \<Rightarrow> Inr (IntArray k (runLength_loop data k 0 0 output))
      | Inr a \<Rightarrow> Inr a)"

section \<open>IntegerPacking\<close>

text \<open>
  The inner loop of \<^verbatim>\<open>integerPackingSigned\<close> and \<^verbatim>\<open>integerPackingUnsigned\<close>, which
  differ in the test \<open>sat\<close> of a token only:
  \<^verbatim>\<open>while (sat(t)) { value += t; i++; t = data[i]; }\<close>, started with \<open>t = data[i]\<close>.
  It returns the index it stops at, the sum so far and the token there, which is
  \<^verbatim>\<open>undefined\<close> when the input ends in saturated tokens. The accumulator is a double;
  it is the exact integer sum as long as that stays below \<open>2 ^ 53\<close>, which holds for
  every input of fewer than \<open>2 ^ 37\<close> tokens.
\<close>

function packed_run :: "(int \<Rightarrow> bool) \<Rightarrow> int list \<Rightarrow> nat \<Rightarrow> int \<Rightarrow> nat \<times> int \<times> int option" where
  "packed_run sat data i v =
     (case get_at data i of
        None \<Rightarrow> (i, v, None)
      | Some t \<Rightarrow> if sat t then packed_run sat data (i + 1) (v + t) else (i, v, Some t))"
  by pat_completeness auto
termination
  by (relation "measure (\<lambda>(sat, data, i, v). length data - i)")
     (auto simp: get_at_def split: if_splits)

declare packed_run.simps [simp del]

lemma packed_run_index: "packed_run sat data i v = (i', v', t) \<Longrightarrow> i \<le> i'"
proof (induction sat data i v rule: packed_run.induct)
  case (1 sat data i v)
  then show ?case
    by (subst (asm) (2) packed_run.simps) (auto split: option.splits if_splits)
qed

text \<open>
  The outer loop: \<^verbatim>\<open>value += t; output[j] = value; i++; j++\<close>. With \<open>t\<close> undefined the
  sum is NaN, which an Int32Array stores as 0.
\<close>

function packing_loop :: "(int \<Rightarrow> bool) \<Rightarrow> int list \<Rightarrow> nat \<Rightarrow> nat \<Rightarrow> int list \<Rightarrow> int list" where
  "packing_loop sat data i j output =
     (if i < length data then
        (case packed_run sat data i 0 of
           (i', v, t) \<Rightarrow>
             packing_loop sat data (i' + 1) (j + 1)
               (set_at output j (case t of None \<Rightarrow> 0 | Some t \<Rightarrow> wrap Int32 (v + t))))
      else output)"
  by pat_completeness auto
termination
proof (relation "measure (\<lambda>(sat, data, i, j, out). length data - i)", goal_cases)
  case 1
  show ?case by simp
next
  case (2 sat data i j out i' y v t)
  then have "packed_run sat data i 0 = (i', v, t)" by simp
  then have "i \<le> i'" by (rule packed_run_index)
  with 2 show ?case by simp
qed

declare packing_loop.simps [simp del]

definition integerPackingSigned :: "int list \<Rightarrow> Encoding \<Rightarrow> error + jsarray" where
  "integerPackingSigned data encoding =
     (let upperLimit = (if byteCount encoding = 1 then 0x7F else 0x7FFF);
          lowerLimit = - upperLimit - 1
      in if srcSize encoding < 0 then Inl RangeError
         else Inr (IntArray Int32
           (packing_loop (\<lambda>t. t = upperLimit \<or> t = lowerLimit) data 0 0
              (replicate (nat (srcSize encoding)) 0))))"

definition integerPackingUnsigned :: "int list \<Rightarrow> Encoding \<Rightarrow> error + jsarray" where
  "integerPackingUnsigned data encoding =
     (let upperLimit = (if byteCount encoding = 1 then 0xFF else 0xFFFF)
      in if srcSize encoding < 0 then Inl RangeError
         else Inr (IntArray Int32
           (packing_loop (\<lambda>t. t = upperLimit) data 0 0
              (replicate (nat (srcSize encoding)) 0))))"

definition integerPacking :: "int list \<Rightarrow> Encoding \<Rightarrow> error + jsarray" where
  "integerPacking data encoding =
     (if isUnsigned encoding then integerPackingUnsigned data encoding
      else integerPackingSigned data encoding)"

section \<open>Reference formulations\<close>

text \<open>
  The signed integer unpacking in the words of the specification: walk the input left
  to right, accumulating a running sum while the current token equals \<open>upper\<close> or
  \<open>lower\<close>; at a token that is neither, add it, emit the sum and reset.
\<close>

fun integerPackingSigned_spec :: "int \<Rightarrow> int \<Rightarrow> int \<Rightarrow> int list \<Rightarrow> int list" where
  "integerPackingSigned_spec upper lower acc [] = []"
| "integerPackingSigned_spec upper lower acc (t # ts) =
     (if t = upper \<or> t = lower then integerPackingSigned_spec upper lower (acc + t) ts
      else (acc + t) # integerPackingSigned_spec upper lower 0 ts)"

text \<open>
  The run-length expansion in the words of the specification: emit \<open>value\<close> repeated
  \<open>length\<close> times for each pair.
\<close>

fun runLength_spec :: "int list \<Rightarrow> int list" where
  "runLength_spec (v # l # rest) = replicate (nat l) v @ runLength_spec rest"
| "runLength_spec [v] = []"
| "runLength_spec [] = []"

text \<open>
  What a zero-filled output of length \<open>n\<close> holds after the values \<open>es\<close> were written
  to it from the start: the values cut at \<open>n\<close>, or followed by the zeros left.
\<close>

definition fitted :: "nat \<Rightarrow> int list \<Rightarrow> int list" where
  "fitted n es = take n (es @ replicate n 0)"

section \<open>Numbers\<close>

text \<open>
  The arithmetic of doubles: the exact result, rounded to the nearest double with ties
  to the even significand. \<open>ilog2 q\<close> is the binary exponent \<open>\<lfloor>log\<^sub>2 q\<rfloor>\<close> of a positive
  rational; \<open>round_binary p emin emax q\<close> rounds \<open>q\<close> to \<open>p\<close> significant bits with
  exponents from \<open>emin\<close> to \<open>emax\<close>, through the subnormal range to a signed zero and
  past the largest finite value to an infinity.
\<close>

definition ilog2 :: "rat \<Rightarrow> int" where
  "ilog2 q =
     (case quotient_of q of
        (a, b) \<Rightarrow> let e = bitlen a - bitlen b in if q < 2 powi e then e - 1 else e)"

definition round_even :: "rat \<Rightarrow> int" where
  "round_even q =
     (let f = \<lfloor>q\<rfloor>; r = q - of_int f
      in if r < 1 / 2 then f else if 1 / 2 < r then f + 1 else if even f then f else f + 1)"

definition round_binary :: "nat \<Rightarrow> int \<Rightarrow> int \<Rightarrow> rat \<Rightarrow> number" where
  "round_binary p emin emax q =
     (if q = 0 then Fin 0
      else
        let a = \<bar>q\<bar>;
            e = max (ilog2 a) emin;
            ulp = 2 powi (e - int p + 1);
            m = of_int (round_even (a / ulp)) * ulp
        in if 2 powi (emax + 1) \<le> m then (if q < 0 then NegInfinity else PosInfinity)
           else if m = 0 then (if q < 0 then NegZero else Fin 0)
           else Fin (if q < 0 then - m else m))"

definition round64 :: "rat \<Rightarrow> number" where
  "round64 q = round_binary 53 (- 1022) 1023 q"

definition round32 :: "rat \<Rightarrow> number" where
  "round32 q = round_binary 24 (- 126) 127 q"

fun negative :: "number \<Rightarrow> bool" where
  "negative NaN = False"
| "negative PosInfinity = False"
| "negative NegInfinity = True"
| "negative NegZero = True"
| "negative (Fin q) = (q < 0)"

fun is_zero :: "number \<Rightarrow> bool" where
  "is_zero NegZero = True"
| "is_zero (Fin q) = (q = 0)"
| "is_zero x = False"

fun is_inf :: "number \<Rightarrow> bool" where
  "is_inf PosInfinity = True"
| "is_inf NegInfinity = True"
| "is_inf x = False"

fun rat_of :: "number \<Rightarrow> rat" where
  "rat_of (Fin q) = q"
| "rat_of x = 0"

definition signed_zero :: "bool \<Rightarrow> number" where
  "signed_zero neg = (if neg then NegZero else Fin 0)"

definition signed_inf :: "bool \<Rightarrow> number" where
  "signed_inf neg = (if neg then NegInfinity else PosInfinity)"

fun fneg :: "number \<Rightarrow> number" where
  "fneg NaN = NaN"
| "fneg PosInfinity = NegInfinity"
| "fneg NegInfinity = PosInfinity"
| "fneg NegZero = Fin 0"
| "fneg (Fin q) = (if q = 0 then NegZero else Fin (- q))"

text \<open>\<^verbatim>\<open>a + b\<close>. A sum of opposite infinities is NaN; an exact zero sum is \<open>+0\<close>,
  but for \<open>-0 + -0\<close>.\<close>

fun fadd :: "number \<Rightarrow> number \<Rightarrow> number" where
  "fadd NaN b = NaN"
| "fadd a NaN = NaN"
| "fadd PosInfinity NegInfinity = NaN"
| "fadd NegInfinity PosInfinity = NaN"
| "fadd PosInfinity b = PosInfinity"
| "fadd a PosInfinity = PosInfinity"
| "fadd NegInfinity b = NegInfinity"
| "fadd a NegInfinity = NegInfinity"
| "fadd NegZero NegZero = NegZero"
| "fadd NegZero (Fin b) = Fin b"
| "fadd (Fin a) NegZero = Fin a"
| "fadd (Fin a) (Fin b) = (if a + b = 0 then Fin 0 else round64 (a + b))"

text \<open>\<^verbatim>\<open>a - b\<close>.\<close>

definition fsub :: "number \<Rightarrow> number \<Rightarrow> number" where
  "fsub a b = fadd a (fneg b)"

text \<open>\<^verbatim>\<open>a * b\<close>. Zero times an infinity is NaN; the sign of a zero or infinite product
  is the product of the signs.\<close>

definition fmul :: "number \<Rightarrow> number \<Rightarrow> number" where
  "fmul a b =
     (if a = NaN \<or> b = NaN then NaN
      else if (is_inf a \<and> is_zero b) \<or> (is_zero a \<and> is_inf b) then NaN
      else if is_inf a \<or> is_inf b then signed_inf (negative a \<noteq> negative b)
      else if is_zero a \<or> is_zero b then signed_zero (negative a \<noteq> negative b)
      else round64 (rat_of a * rat_of b))"

text \<open>\<^verbatim>\<open>a / b\<close>. No division raises: \<open>0 / 0\<close> and a quotient of infinities are NaN,
  and any other division by a zero is an infinity.\<close>

definition fdiv :: "number \<Rightarrow> number \<Rightarrow> number" where
  "fdiv a b =
     (if a = NaN \<or> b = NaN then NaN
      else if (is_inf a \<and> is_inf b) \<or> (is_zero a \<and> is_zero b) then NaN
      else if is_inf a \<or> is_zero b then signed_inf (negative a \<noteq> negative b)
      else if is_zero a \<or> is_inf b then signed_zero (negative a \<noteq> negative b)
      else round64 (rat_of a / rat_of b))"

text \<open>The number an element of an integer typed array reads as.\<close>

definition number_of_int :: "int \<Rightarrow> number" where
  "number_of_int v = Fin (of_int v)"

text \<open>\<^verbatim>\<open>Math.fround\<close>, the conversion a Float32Array applies to what is stored in it.\<close>

fun fround :: "number \<Rightarrow> number" where
  "fround (Fin q) = round32 q"
| "fround x = x"

text \<open>
  ToInt32 of a number, the conversion of \<^verbatim>\<open>x | 0\<close>: NaN, the infinities and the zeros
  give 0, a finite number is truncated toward zero and wrapped into the Int32 range.
\<close>

fun number_toInt32 :: "number \<Rightarrow> int" where
  "number_toInt32 (Fin q) = wrap Int32 (if 0 \<le> q then \<lfloor>q\<rfloor> else \<lceil>q\<rceil>)"
| "number_toInt32 x = 0"

text \<open>\<^verbatim>\<open>a === b\<close> on numbers: NaN is equal to nothing, the two zeros are equal.\<close>

definition number_eq :: "number \<Rightarrow> number \<Rightarrow> bool" where
  "number_eq a b = (a \<noteq> NaN \<and> b \<noteq> NaN \<and> (a = b \<or> (is_zero a \<and> is_zero b)))"

section \<open>FixedPoint and IntervalQuantization\<close>

text \<open>
  \<^verbatim>\<open>getFloatArray(type, size)\<close>, called with the length of the input, and the
  conversion of a store into the array it returns.
\<close>

definition getFloatArray :: "int \<Rightarrow> nat \<Rightarrow> error + jsarray" where
  "getFloatArray ty sz =
     (case FloatDataType_of ty of
        Some k \<Rightarrow> Inr (FloatArray k (replicate sz (Fin 0)))
      | None \<Rightarrow> Inl (Error ''Unsupported floating data type.''))"

fun float_store :: "FloatDataType \<Rightarrow> number \<Rightarrow> number" where
  "float_store Float32 x = fround x"
| "float_store Float64 x = x"

text \<open>
  \<^verbatim>\<open>fixedPoint(data, encoding)\<close>, on the numbers the input array holds. The loop
  writes \<^verbatim>\<open>output[i] = f * data[i]\<close> for every index of the output.
\<close>

definition fixedPoint :: "number list \<Rightarrow> Encoding \<Rightarrow> error + jsarray" where
  "fixedPoint data encoding =
     (let n = length data in
      case getFloatArray (srcType encoding) n of
        Inl e \<Rightarrow> Inl e
      | Inr (FloatArray k output) \<Rightarrow>
          let f = fdiv (Fin 1) (factor encoding)
          in Inr (FloatArray k (map (\<lambda>x. float_store k (fmul f x)) data))
      | Inr a \<Rightarrow> Inr a)"

text \<open>
  \<^verbatim>\<open>intervalQuantization(data, encoding)\<close>: \<^verbatim>\<open>output[i] = min + delta * data[i]\<close> with
  \<^verbatim>\<open>delta = (max - min) / (numSteps - 1)\<close>. Nothing looks at \<^verbatim>\<open>numSteps\<close> before the
  division.
\<close>

definition intervalQuantization :: "number list \<Rightarrow> Encoding \<Rightarrow> error + jsarray" where
  "intervalQuantization data encoding =
     (let n = length data in
      case getFloatArray (srcType encoding) n of
        Inl e \<Rightarrow> Inl e
      | Inr (FloatArray k output) \<Rightarrow>
          let delta = fdiv (fsub (maxE encoding) (minE encoding)) (fsub (numSteps encoding) (Fin 1));
              min = minE encoding
          in Inr (FloatArray k (map (\<lambda>x. float_store k (fadd min (fmul delta x))) data))
      | Inr a \<Rightarrow> Inr a)"

section \<open>Byte arrays\<close>

text \<open>The value of a group of bytes, least significant byte first:\<close>

fun le_value :: "int list \<Rightarrow> int" where
  "le_value [] = 0"
| "le_value (b # bs) = b + 256 * le_value bs"

function chunks :: "nat \<Rightarrow> int list \<Rightarrow> int list list" where
  "chunks w bs = (if w = 0 \<or> bs = [] then [] else take w bs # chunks w (drop w bs))"
  by pat_completeness auto
termination
  by (relation "measure (\<lambda>(w, bs). length bs)") auto

declare chunks.simps [simp del]

text \<open>
  \<^verbatim>\<open>new c(buffer)\<close> for an element size of \<open>w\<close> bytes: a RangeError unless the byte length
  is a multiple of \<open>w\<close>; the elements are read in the byte order of the host. The result
  here is the unsigned value of each element.
\<close>

definition typed_view :: "bool \<Rightarrow> nat \<Rightarrow> int list \<Rightarrow> error + int list" where
  "typed_view hostLittleEndian w buf =
     (if length buf mod w \<noteq> 0 then Inl RangeError
      else Inr (map (\<lambda>g. le_value (if hostLittleEndian then g else rev g)) (chunks w buf)))"

text \<open>
  \<^verbatim>\<open>flipByteOrder(data, bytes)\<close>. A read past the end of \<open>data\<close> is \<^verbatim>\<open>undefined\<close>, stored
  as 0; \<open>bytes\<close> is 2, 4 or 8 at every call, and the outer loop is stopped for 0, where
  the source's would not end.
\<close>

function flipByteOrder_inner :: "int list \<Rightarrow> nat \<Rightarrow> nat \<Rightarrow> nat \<Rightarrow> int list \<Rightarrow> int list" where
  "flipByteOrder_inner data bytes i j ret =
     (if j < bytes then
        flipByteOrder_inner data bytes i (j + 1)
          (set_at ret (i + bytes - j - 1) (case get_at data (i + j) of None \<Rightarrow> 0 | Some b \<Rightarrow> b))
      else ret)"
  by pat_completeness auto
termination
  by (relation "measure (\<lambda>(data, bytes, i, j, ret). bytes - j)") auto

declare flipByteOrder_inner.simps [simp del]

function flipByteOrder_outer :: "int list \<Rightarrow> nat \<Rightarrow> nat \<Rightarrow> int list \<Rightarrow> int list" where
  "flipByteOrder_outer data bytes i ret =
     (if i < length data \<and> 0 < bytes then
        flipByteOrder_outer data bytes (i + bytes) (flipByteOrder_inner data bytes i 0 ret)
      else ret)"
  by pat_completeness auto
termination
  by (relation "measure (\<lambda>(data, bytes, i, ret). length data - i)") auto

declare flipByteOrder_outer.simps [simp del]

definition flipByteOrder :: "int list \<Rightarrow> nat \<Rightarrow> int list" where
  "flipByteOrder data bytes = flipByteOrder_outer data bytes 0 (replicate (length data) 0)"

text \<open>
  \<^verbatim>\<open>view(data, byteSize, c)\<close>, for a host of either byte order. On a little-endian host
  the typed array is made over \<^verbatim>\<open>data.buffer\<close>, the whole buffer whatever the window of
  \<open>data\<close>; on a big-endian host over the flipped copy of the elements of \<open>data\<close>.
\<close>

definition view :: "bool \<Rightarrow> Uint8Array \<Rightarrow> nat \<Rightarrow> error + int list" where
  "view isLittleEndian data byteSize =
     (if isLittleEndian then typed_view True byteSize (buffer data)
      else typed_view False byteSize (flipByteOrder (bytes_of data) byteSize))"

text \<open>
  The number an IEEE 754 bit pattern denotes, with \<open>eb\<close> exponent bits and \<open>mb\<close>
  significand bits.
\<close>

definition float_of_bits :: "nat \<Rightarrow> nat \<Rightarrow> int \<Rightarrow> number" where
  "float_of_bits eb mb v =
     (let s = ((v div 2 ^ (eb + mb)) mod 2 = 1);
          e = (v div 2 ^ mb) mod 2 ^ eb;
          m = v mod 2 ^ mb;
          bias = 2 ^ (eb - 1) - 1
      in if e = 2 ^ eb - 1 then (if m = 0 then signed_inf s else NaN)
         else if e = 0 then
           (if m = 0 then signed_zero s
            else Fin ((if s then - 1 else 1) * of_int m * 2 powi (1 - bias - int mb)))
         else Fin ((if s then - 1 else 1) * of_int (2 ^ mb + m) * 2 powi (e - bias - int mb)))"

text \<open>
  \<^verbatim>\<open>new Int8Array(data.buffer, data.byteOffset)\<close>: the bytes of the buffer from the offset
  of \<open>data\<close> to the end of the buffer, whatever the length of \<open>data\<close>. The constructor
  raises a RangeError on an offset beyond the buffer.
\<close>

definition int8 :: "Uint8Array \<Rightarrow> error + jsarray" where
  "int8 data =
     (if length (buffer data) < byteOffset data then Inl RangeError
      else Inr (IntArray Int8 (map (wrap Int8) (drop (byteOffset data) (buffer data)))))"

definition int16 :: "bool \<Rightarrow> Uint8Array \<Rightarrow> error + jsarray" where
  "int16 le data = map_sum id (\<lambda>vs. IntArray Int16 (map (wrap Int16) vs)) (view le data 2)"

definition uint16 :: "bool \<Rightarrow> Uint8Array \<Rightarrow> error + jsarray" where
  "uint16 le data = map_sum id (\<lambda>vs. IntArray Uint16 vs) (view le data 2)"

definition int32 :: "bool \<Rightarrow> Uint8Array \<Rightarrow> error + jsarray" where
  "int32 le data = map_sum id (\<lambda>vs. IntArray Int32 (map (wrap Int32) vs)) (view le data 4)"

definition uint32 :: "bool \<Rightarrow> Uint8Array \<Rightarrow> error + jsarray" where
  "uint32 le data = map_sum id (\<lambda>vs. IntArray Uint32 vs) (view le data 4)"

definition float32 :: "bool \<Rightarrow> Uint8Array \<Rightarrow> error + jsarray" where
  "float32 le data = map_sum id (\<lambda>vs. FloatArray Float32 (map (float_of_bits 8 23) vs)) (view le data 4)"

definition float64 :: "bool \<Rightarrow> Uint8Array \<Rightarrow> error + jsarray" where
  "float64 le data = map_sum id (\<lambda>vs. FloatArray Float64 (map (float_of_bits 11 52) vs)) (view le data 8)"

section \<open>The decoding pipeline\<close>

text \<open>
  The data handed from one step to the next has type \<^verbatim>\<open>any\<close>: it is an array or
  \<^verbatim>\<open>undefined\<close>, which is \<open>None\<close> here. The three functions below say what a decoder
  does with it. A read of \<^verbatim>\<open>data.length\<close> or \<^verbatim>\<open>data.buffer\<close> on \<^verbatim>\<open>undefined\<close> is a
  TypeError. A decoder of bytes takes a \<^verbatim>\<open>Uint8Array\<close>, of the input or made by a decoder
  (which then spans its buffer); a decoder of integers takes the elements of an
  integer typed array, and \<^verbatim>\<open>fixedPoint\<close> and \<^verbatim>\<open>intervalQuantization\<close> the elements of any
  typed array, as numbers. On an array of another form the source goes on with the
  coercions of the language, which this model does not follow: the outcome there is
  \<open>OutsideSignature\<close>, and no theorem below says what the source does then.
\<close>

definition on_bytes :: "jsarray option \<Rightarrow> (Uint8Array \<Rightarrow> error + jsarray) \<Rightarrow> error + jsarray option" where
  "on_bytes data f =
     (case data of
        None \<Rightarrow> Inl TypeError
      | Some (Bytes a) \<Rightarrow> map_sum id Some (f a)
      | Some (IntArray Uint8 xs) \<Rightarrow> map_sum id Some (f (Uint8Array xs 0 (length xs)))
      | Some a \<Rightarrow> Inl OutsideSignature)"

definition on_ints :: "jsarray option \<Rightarrow> (int list \<Rightarrow> error + jsarray) \<Rightarrow> error + jsarray option" where
  "on_ints data f =
     (case data of
        None \<Rightarrow> Inl TypeError
      | Some (Bytes a) \<Rightarrow> map_sum id Some (f (bytes_of a))
      | Some (IntArray k xs) \<Rightarrow> map_sum id Some (f xs)
      | Some a \<Rightarrow> Inl OutsideSignature)"

definition on_numbers :: "jsarray option \<Rightarrow> (number list \<Rightarrow> error + jsarray) \<Rightarrow> error + jsarray option" where
  "on_numbers data f =
     (case data of
        None \<Rightarrow> Inl TypeError
      | Some (Bytes a) \<Rightarrow> map_sum id Some (f (map number_of_int (bytes_of a)))
      | Some (IntArray k xs) \<Rightarrow> map_sum id Some (f (map number_of_int xs))
      | Some (FloatArray k xs) \<Rightarrow> map_sum id Some (f xs)
      | Some (Strings xs) \<Rightarrow> Inl OutsideSignature)"

text \<open>
  \<^verbatim>\<open>str.substring(start, end)\<close>, with the offsets as read from the offset table: an
  \<^verbatim>\<open>undefined\<close> start is 0 and an \<^verbatim>\<open>undefined\<close> end is the length; a number is truncated
  (NaN to 0) and clamped to the string; the smaller bound comes first. A string is the
  list of its code units.
\<close>

fun clamp_index :: "nat \<Rightarrow> number \<Rightarrow> nat" where
  "clamp_index len (Fin q) = min (nat (if 0 \<le> q then \<lfloor>q\<rfloor> else \<lceil>q\<rceil>)) len"
| "clamp_index len PosInfinity = len"
| "clamp_index len x = 0"

definition substring :: "string \<Rightarrow> number option \<Rightarrow> number option \<Rightarrow> string" where
  "substring str start end =
     (let len = length str;
          intStart = (case start of None \<Rightarrow> 0 | Some x \<Rightarrow> clamp_index len x);
          intEnd = (case end of None \<Rightarrow> len | Some x \<Rightarrow> clamp_index len x);
          from = min intStart intEnd;
          to = max intStart intEnd
      in take (to - from) (drop from str))"

text \<open>
  The loop of \<^verbatim>\<open>stringArray\<close> over the indices, with the cache; the result array is
  filled in order, so it is built as a list. A negative index gives \<^verbatim>\<open>null\<close>. The offset
  table is read only for an index that is not in the cache, and reading it when it is
  \<^verbatim>\<open>undefined\<close> is a TypeError.
\<close>

fun stringArray_loop ::
    "string \<Rightarrow> jsarray option \<Rightarrow> (int \<rightharpoonup> string) \<Rightarrow> int list \<Rightarrow> error + string option list" where
  "stringArray_loop str table cache [] = Inr []"
| "stringArray_loop str table cache (i # indices) =
     (if i < 0 then map_sum id ((#) None) (stringArray_loop str table cache indices)
      else case cache i of
        Some v \<Rightarrow> map_sum id ((#) (Some v)) (stringArray_loop str table cache indices)
      | None \<Rightarrow>
         (case table of
            None \<Rightarrow> Inl TypeError
          | Some (Bytes a) \<Rightarrow>
              (let v = substring str (map_option number_of_int (get_at (bytes_of a) (nat i)))
                         (map_option number_of_int (get_at (bytes_of a) (nat i + 1)))
               in map_sum id ((#) (Some v)) (stringArray_loop str table (cache(i \<mapsto> v)) indices))
          | Some (IntArray k os) \<Rightarrow>
              (let v = substring str (map_option number_of_int (get_at os (nat i)))
                         (map_option number_of_int (get_at os (nat i + 1)))
               in map_sum id ((#) (Some v)) (stringArray_loop str table (cache(i \<mapsto> v)) indices))
          | Some (FloatArray k os) \<Rightarrow>
              (let v = substring str (get_at os (nat i)) (get_at os (nat i + 1))
               in map_sum id ((#) (Some v)) (stringArray_loop str table (cache(i \<mapsto> v)) indices))
          | Some (Strings os) \<Rightarrow> Inl OutsideSignature))"

lemma size_list_last: "xs \<noteq> [] \<Longrightarrow> f (last xs) < size_list f xs"
  by (induction xs) auto

lemma size_list_butlast: "xs \<noteq> [] \<Longrightarrow> size_list f (butlast xs) < size_list f xs"
  by (induction xs) auto

text \<open>
  \<^verbatim>\<open>Decoder.decodeStep\<close>, \<^verbatim>\<open>stringArray\<close> and the loop of \<^verbatim>\<open>decode\<close>, which runs from the
  last descriptor of the stack to the first. \<open>le\<close> is \<^verbatim>\<open>isLittleEndian\<close>, the byte order
  of the host. The switch of \<^verbatim>\<open>decodeStep\<close> has no default: on a descriptor of another
  kind the function ends without a \<^verbatim>\<open>return\<close>, and its value is \<^verbatim>\<open>undefined\<close>.
\<close>

function decodeStep :: "bool \<Rightarrow> jsarray option \<Rightarrow> Encoding \<Rightarrow> error + jsarray option"
  and stringArray :: "bool \<Rightarrow> jsarray option \<Rightarrow> Encoding \<Rightarrow> error + jsarray"
  and decode_loop :: "bool \<Rightarrow> jsarray option \<Rightarrow> Encoding list \<Rightarrow> error + jsarray option" where
  "decodeStep le data (ByteArray ty) =
     (if ty = 4 then Inr data
      else if ty = 1 then on_bytes data int8
      else if ty = 2 then on_bytes data (int16 le)
      else if ty = 5 then on_bytes data (uint16 le)
      else if ty = 3 then on_bytes data (int32 le)
      else if ty = 6 then on_bytes data (uint32 le)
      else if ty = 32 then on_bytes data (float32 le)
      else if ty = 33 then on_bytes data (float64 le)
      else Inl (Error ''Unsupported ByteArray type.''))"
| "decodeStep le data (FixedPoint f st) = on_numbers data (\<lambda>xs. fixedPoint xs (FixedPoint f st))"
| "decodeStep le data (IntervalQuantization mn mx ns st) =
     on_numbers data (\<lambda>xs. intervalQuantization xs (IntervalQuantization mn mx ns st))"
| "decodeStep le data (RunLength st sz) =
     (case data of
        None \<Rightarrow> (case getIntArray st sz of Inl e \<Rightarrow> Inl e | Inr a \<Rightarrow> Inl TypeError)
      | Some a \<Rightarrow> on_ints data (\<lambda>xs. runLength xs (RunLength st sz)))"
| "decodeStep le data (Delta orig st) = on_ints data (\<lambda>xs. delta xs (Delta orig st))"
| "decodeStep le data (IntegerPacking bc u sz) =
     on_ints data (\<lambda>xs. integerPacking xs (IntegerPacking bc u sz))"
| "decodeStep le data (StringArray de str oe offs) =
     map_sum id Some (stringArray le data (StringArray de str oe offs))"
| "decodeStep le data (OtherKind k) = Inr None"
| "stringArray le data (StringArray de str oe offs) =
     (case decode_loop le (Some (Bytes offs)) oe of
        Inl e \<Rightarrow> Inl e
      | Inr table \<Rightarrow>
         (case decode_loop le data de of
            Inl e \<Rightarrow> Inl e
          | Inr indices \<Rightarrow>
             (case indices of
                None \<Rightarrow> Inl TypeError
              | Some (Bytes a) \<Rightarrow>
                  map_sum id Strings (stringArray_loop str table Map.empty (bytes_of a))
              | Some (IntArray k is) \<Rightarrow> map_sum id Strings (stringArray_loop str table Map.empty is)
              | Some a \<Rightarrow> Inl OutsideSignature)))"
| "stringArray le data (ByteArray ty) = Inl OutsideSignature"
| "stringArray le data (FixedPoint f st) = Inl OutsideSignature"
| "stringArray le data (IntervalQuantization mn mx ns st) = Inl OutsideSignature"
| "stringArray le data (RunLength st sz) = Inl OutsideSignature"
| "stringArray le data (Delta orig st) = Inl OutsideSignature"
| "stringArray le data (IntegerPacking bc u sz) = Inl OutsideSignature"
| "stringArray le data (OtherKind k) = Inl OutsideSignature"
| "decode_loop le current encs =
     (if encs = [] then Inr current
      else case decodeStep le current (last encs) of
             Inl e \<Rightarrow> Inl e
           | Inr next \<Rightarrow> decode_loop le next (butlast encs))"
  by pat_completeness auto
termination
proof (relation "measure (\<lambda>x. case x of
    Inl (le, data, enc) \<Rightarrow> 2 * size enc + 1
  | Inr (Inl (le, data, enc)) \<Rightarrow> 2 * size enc
  | Inr (Inr (le, current, encs)) \<Rightarrow> 2 * size_list size encs + 1)", goal_cases)
  case 1
  show ?case by simp
next
  case 2
  show ?case by simp
next
  case 3
  show ?case by simp
next
  case 4
  show ?case by simp
next
  case (5 le current encs)
  then show ?case using size_list_last [of encs size] by simp
next
  case (6 le current encs x)
  then show ?case using size_list_butlast [of encs size] by simp
qed

declare decode_loop.simps [simp del]

datatype EncodedData = EncodedData (ed_encoding: "Encoding list") (ed_data: "Uint8Array option")

text \<open>
  \<^verbatim>\<open>decode(data)\<close>. The byte buffer \<^verbatim>\<open>data.data\<close> is declared a \<^verbatim>\<open>Uint8Array\<close>, and
  \<^verbatim>\<open>wrapColumn\<close> tests it for absence, so it is optional here.
\<close>

definition decode :: "bool \<Rightarrow> EncodedData \<Rightarrow> error + jsarray option" where
  "decode le d =
     decode_loop le (map_option Bytes (ed_data d)) (ed_encoding d)"

section \<open>Columns\<close>

text \<open>
  What a cell reads as: \<^verbatim>\<open>undefined\<close> (a row past the end of the store), \<^verbatim>\<open>null\<close>, a
  number or a string. \<open>element data row\<close> is \<^verbatim>\<open>data[row]\<close>.
\<close>

datatype jsval = JUndefined | JNull | JNum number | JStr string

fun element :: "jsarray \<Rightarrow> nat \<Rightarrow> jsval" where
  "element (Bytes a) row =
     (case get_at (bytes_of a) row of None \<Rightarrow> JUndefined | Some v \<Rightarrow> JNum (number_of_int v))"
| "element (IntArray k xs) row =
     (case get_at xs row of None \<Rightarrow> JUndefined | Some v \<Rightarrow> JNum (number_of_int v))"
| "element (FloatArray k xs) row =
     (case get_at xs row of None \<Rightarrow> JUndefined | Some v \<Rightarrow> JNum v)"
| "element (Strings xs) row =
     (case get_at xs row of None \<Rightarrow> JUndefined | Some None \<Rightarrow> JNull | Some (Some s) \<Rightarrow> JStr s)"

text \<open>\<^verbatim>\<open>a === b\<close>.\<close>

fun strict_eq :: "jsval \<Rightarrow> jsval \<Rightarrow> bool" where
  "strict_eq JUndefined JUndefined = True"
| "strict_eq JNull JNull = True"
| "strict_eq (JNum a) (JNum b) = number_eq a b"
| "strict_eq (JStr a) (JStr b) = (a = b)"
| "strict_eq a b = False"

text \<open>
  \<^verbatim>\<open>ValuePresence\<close>: 0 is Present, 1 is NotSpecified, 2 is Unknown, as the comment on
  \<^verbatim>\<open>EncodedColumn.mask\<close> has it.
\<close>

definition Present :: jsval where
  "Present = JNum (Fin 0)"

definition NotSpecified :: jsval where
  "NotSpecified = JNum (Fin 1)"

definition Unknown :: jsval where
  "Unknown = JNum (Fin 2)"

text \<open>
  The four column classes, and the sentinel \<^verbatim>\<open>CIFTools.UndefinedColumn\<close>. The first
  argument of a masked column is its data, the second its mask.
\<close>

datatype Column =
    UndefinedColumn
  | NumericColumn jsarray
  | MaskedNumericColumn jsarray jsarray
  | StringColumn jsarray
  | MaskedStringColumn jsarray jsarray

text \<open>
  Modelled from the spec: the class of \<^verbatim>\<open>CIFTools.UndefinedColumn\<close> is not among the
  sources. The specification gives the sentinel \<open>isDefined = false\<close>.
\<close>

definition UndefinedColumn_isDefined :: bool where
  "UndefinedColumn_isDefined = False"

text \<open>
  Modelled from the spec: \<^verbatim>\<open>getString\<close> of \<^verbatim>\<open>CIFTools.UndefinedColumn\<close>, which is not among
  the sources. The specification has every getter of the sentinel return a neutral
  default, for the string the empty string or \<^verbatim>\<open>null\<close>; it is \<^verbatim>\<open>null\<close> here, the value that
  \<^verbatim>\<open>getString\<close> has where nothing is present.
\<close>

definition UndefinedColumn_getString :: "nat \<Rightarrow> jsval" where
  "UndefinedColumn_getString row = JNull"

text \<open>
  Modelled from the spec: \<^verbatim>\<open>getInteger\<close> of \<^verbatim>\<open>CIFTools.UndefinedColumn\<close>, which is not among
  the sources. The neutral default of the specification is 0.
\<close>

definition UndefinedColumn_getInteger :: "nat \<Rightarrow> jsval" where
  "UndefinedColumn_getInteger row = JNum (Fin 0)"

text \<open>
  Modelled from the spec: \<^verbatim>\<open>getValuePresence\<close> of \<^verbatim>\<open>CIFTools.UndefinedColumn\<close>, which is not
  among the sources. The neutral default of the specification is Present.
\<close>

definition UndefinedColumn_getValuePresence :: "nat \<Rightarrow> jsval" where
  "UndefinedColumn_getValuePresence row = Present"

text \<open>
  Modelled from the spec: the equality of \<^verbatim>\<open>CIFTools.UndefinedColumn\<close>, which is not among
  the sources. The specification states one property of \<^verbatim>\<open>areValuesEqual\<close>, that a row
  equals itself, and nothing of the sentinel in particular.
\<close>

definition UndefinedColumn_areValuesEqual :: "nat \<Rightarrow> nat \<Rightarrow> bool" where
  "UndefinedColumn_areValuesEqual rowA rowB = True"

text \<open>
  The interface \<^verbatim>\<open>Column\<close>: each function below is a method, by the class of the
  column.
\<close>

fun isDefined :: "Column \<Rightarrow> bool" where
  "isDefined UndefinedColumn = UndefinedColumn_isDefined"
| "isDefined c = True"

text \<open>
  The template string \<^verbatim>\<open>`${v}`\<close>. The printing of a number is the language's, taken as
  the parameter \<open>numberToString\<close>.
\<close>

fun template :: "(number \<Rightarrow> string) \<Rightarrow> jsval \<Rightarrow> string" where
  "template numberToString JUndefined = ''undefined''"
| "template numberToString JNull = ''null''"
| "template numberToString (JNum x) = numberToString x"
| "template numberToString (JStr s) = s"

definition NumericColumn_getString :: "(number \<Rightarrow> string) \<Rightarrow> jsarray \<Rightarrow> nat \<Rightarrow> jsval" where
  "NumericColumn_getString numberToString data row =
     JStr (template numberToString (element data row))"

definition MaskedNumericColumn_getString ::
    "(number \<Rightarrow> string) \<Rightarrow> jsarray \<Rightarrow> jsarray \<Rightarrow> nat \<Rightarrow> jsval" where
  "MaskedNumericColumn_getString numberToString data rowMask row =
     (if strict_eq (element rowMask row) Present
      then JStr (template numberToString (element data row)) else JNull)"

definition StringColumn_getString :: "jsarray \<Rightarrow> nat \<Rightarrow> jsval" where
  "StringColumn_getString data row = element data row"

definition MaskedStringColumn_getString :: "jsarray \<Rightarrow> jsarray \<Rightarrow> nat \<Rightarrow> jsval" where
  "MaskedStringColumn_getString data rowMask row =
     (if strict_eq (element rowMask row) Present then element data row else JNull)"

fun getString :: "(number \<Rightarrow> string) \<Rightarrow> Column \<Rightarrow> nat \<Rightarrow> jsval" where
  "getString numberToString UndefinedColumn row = UndefinedColumn_getString row"
| "getString numberToString (NumericColumn data) row =
     NumericColumn_getString numberToString data row"
| "getString numberToString (MaskedNumericColumn data rowMask) row =
     MaskedNumericColumn_getString numberToString data rowMask row"
| "getString numberToString (StringColumn data) row = StringColumn_getString data row"
| "getString numberToString (MaskedStringColumn data rowMask) row =
     MaskedStringColumn_getString data rowMask row"

fun getValuePresence :: "Column \<Rightarrow> nat \<Rightarrow> jsval" where
  "getValuePresence UndefinedColumn row = UndefinedColumn_getValuePresence row"
| "getValuePresence (NumericColumn data) row = Present"
| "getValuePresence (MaskedNumericColumn data rowMask) row = element rowMask row"
| "getValuePresence (StringColumn data) row = Present"
| "getValuePresence (MaskedStringColumn data rowMask) row = element rowMask row"

text \<open>
  \<^verbatim>\<open>getInteger\<close>. The parser \<^verbatim>\<open>FastNumberParsers.parseInt\<close> is not among the sources and
  is the parameter \<open>fastParseInt\<close>. \<^verbatim>\<open>v | 0\<close> is ToInt32, 0 on \<^verbatim>\<open>undefined\<close>; \<^verbatim>\<open>v.length\<close>
  on \<^verbatim>\<open>null\<close> or \<^verbatim>\<open>undefined\<close> is a TypeError; \<^verbatim>\<open>v || ''\<close> is the empty string for
  \<^verbatim>\<open>null\<close>, \<^verbatim>\<open>undefined\<close> and the empty string. A numeric column holds no strings and a
  string column no numbers other than in an empty typed array.
\<close>

definition NumericColumn_getInteger :: "jsarray \<Rightarrow> nat \<Rightarrow> error + jsval" where
  "NumericColumn_getInteger data row =
     (case element data row of
        JNum x \<Rightarrow> Inr (JNum (number_of_int (number_toInt32 x)))
      | JUndefined \<Rightarrow> Inr (JNum (Fin 0))
      | JNull \<Rightarrow> Inr (JNum (Fin 0))
      | JStr s \<Rightarrow> Inl OutsideSignature)"

definition MaskedNumericColumn_getInteger :: "jsarray \<Rightarrow> jsarray \<Rightarrow> nat \<Rightarrow> error + jsval" where
  "MaskedNumericColumn_getInteger data rowMask row =
     (if strict_eq (element rowMask row) Present then Inr (element data row)
      else Inr (JNum (Fin 0)))"

definition StringColumn_getInteger ::
    "(string \<Rightarrow> nat \<Rightarrow> nat \<Rightarrow> number) \<Rightarrow> jsarray \<Rightarrow> nat \<Rightarrow> error + jsval" where
  "StringColumn_getInteger fastParseInt data row =
     (case element data row of
        JStr v \<Rightarrow> Inr (JNum (fastParseInt v 0 (length v)))
      | JUndefined \<Rightarrow> Inl TypeError
      | JNull \<Rightarrow> Inl TypeError
      | JNum x \<Rightarrow> Inl OutsideSignature)"

definition MaskedStringColumn_getInteger ::
    "(string \<Rightarrow> nat \<Rightarrow> nat \<Rightarrow> number) \<Rightarrow> jsarray \<Rightarrow> jsarray \<Rightarrow> nat \<Rightarrow> error + jsval" where
  "MaskedStringColumn_getInteger fastParseInt data rowMask row =
     (if \<not> strict_eq (element rowMask row) Present then Inr (JNum (Fin 0))
      else case element data row of
        JStr v \<Rightarrow> Inr (JNum (fastParseInt v 0 (length v)))
      | JUndefined \<Rightarrow> Inr (JNum (fastParseInt [] 0 0))
      | JNull \<Rightarrow> Inr (JNum (fastParseInt [] 0 0))
      | JNum x \<Rightarrow> Inl OutsideSignature)"

fun getInteger :: "(string \<Rightarrow> nat \<Rightarrow> nat \<Rightarrow> number) \<Rightarrow> Column \<Rightarrow> nat \<Rightarrow> error + jsval" where
  "getInteger fastParseInt UndefinedColumn row = Inr (UndefinedColumn_getInteger row)"
| "getInteger fastParseInt (NumericColumn data) row = NumericColumn_getInteger data row"
| "getInteger fastParseInt (MaskedNumericColumn data rowMask) row =
     MaskedNumericColumn_getInteger data rowMask row"
| "getInteger fastParseInt (StringColumn data) row = StringColumn_getInteger fastParseInt data row"
| "getInteger fastParseInt (MaskedStringColumn data rowMask) row =
     MaskedStringColumn_getInteger fastParseInt data rowMask row"

text \<open>\<^verbatim>\<open>areValuesEqual\<close>: the same comparison of the stored values in the four classes.\<close>

fun areValuesEqual :: "Column \<Rightarrow> nat \<Rightarrow> nat \<Rightarrow> bool" where
  "areValuesEqual UndefinedColumn rowA rowB = UndefinedColumn_areValuesEqual rowA rowB"
| "areValuesEqual (NumericColumn data) rowA rowB = strict_eq (element data rowA) (element data rowB)"
| "areValuesEqual (MaskedNumericColumn data rowMask) rowA rowB =
     strict_eq (element data rowA) (element data rowB)"
| "areValuesEqual (StringColumn data) rowA rowB = strict_eq (element data rowA) (element data rowB)"
| "areValuesEqual (MaskedStringColumn data rowMask) rowA rowB =
     strict_eq (element data rowA) (element data rowB)"

section \<open>Categories\<close>

datatype EncodedColumn =
  EncodedColumn (col_name: string) (col_data: EncodedData) (col_mask: "EncodedData option")

datatype EncodedCategory =
  EncodedCategory (cat_name: string) (cat_rowCount: int) (cat_columns: "EncodedColumn list")

text \<open>
  \<^verbatim>\<open>data.buffer && data.byteLength && data.BYTES_PER_ELEMENT\<close>: a typed array that is
  not empty.
\<close>

fun is_numeric :: "jsarray \<Rightarrow> bool" where
  "is_numeric (Bytes a) = (byteLength a \<noteq> 0)"
| "is_numeric (IntArray k xs) = (xs \<noteq> [])"
| "is_numeric (FloatArray k xs) = (xs \<noteq> [])"
| "is_numeric (Strings xs) = False"

text \<open>
  \<^verbatim>\<open>wrapColumn(column)\<close>. Without a byte buffer the column is the sentinel. The data is
  decoded, then the mask when there is one, and then \<^verbatim>\<open>data.buffer\<close> is read, a TypeError
  when the data decoded to \<^verbatim>\<open>undefined\<close>. A mask that decoded to \<^verbatim>\<open>undefined\<close> counts as no
  mask.
\<close>

definition wrapColumn :: "bool \<Rightarrow> EncodedColumn \<Rightarrow> error + Column" where
  "wrapColumn le column =
     (if ed_data (col_data column) = None then Inr UndefinedColumn
      else case decode le (col_data column) of
        Inl e \<Rightarrow> Inl e
      | Inr data \<Rightarrow>
         (case (case col_mask column of None \<Rightarrow> Inr None | Some m \<Rightarrow> decode le m) of
            Inl e \<Rightarrow> Inl e
          | Inr rowMask \<Rightarrow>
             (case data of
                None \<Rightarrow> Inl TypeError
              | Some d \<Rightarrow>
                 if is_numeric d
                 then (case rowMask of Some m \<Rightarrow> Inr (MaskedNumericColumn d m) | None \<Rightarrow> Inr (NumericColumn d))
                 else (case rowMask of Some m \<Rightarrow> Inr (MaskedStringColumn d m) | None \<Rightarrow> Inr (StringColumn d)))))"

text \<open>
  The class \<^verbatim>\<open>Category\<close>. Its constructor enters the columns into the map in their
  order, a later column replacing an earlier one of the same name, and lists the names.
\<close>

datatype Category =
  Category (category_name: string) (columnCount: nat) (rowCount: int)
    (encodedColumns: "string \<rightharpoonup> EncodedColumn") (columnNameList: "string list")

fun Category_columns ::
    "EncodedColumn list \<Rightarrow> (string \<rightharpoonup> EncodedColumn) \<Rightarrow> string list
       \<Rightarrow> (string \<rightharpoonup> EncodedColumn) \<times> string list" where
  "Category_columns [] m names = (m, names)"
| "Category_columns (c # cs) m names = Category_columns cs (m(col_name c \<mapsto> c)) (names @ [col_name c])"

definition new_Category :: "EncodedCategory \<Rightarrow> Category" where
  "new_Category d =
     (case Category_columns (cat_columns d) Map.empty [] of
        (m, names) \<Rightarrow> Category (cat_name d) (length (cat_columns d)) (cat_rowCount d) m names)"

definition columnNames :: "Category \<Rightarrow> string list" where
  "columnNames c = columnNameList c"

definition getColumn :: "bool \<Rightarrow> Category \<Rightarrow> string \<Rightarrow> error + Column" where
  "getColumn le c name =
     (case encodedColumns c name of
        Some w \<Rightarrow> wrapColumn le w
      | None \<Rightarrow> Inr UndefinedColumn)"

section \<open>Properties of the integer decoders\<close>

subsection \<open>Wrap-around\<close>

lemma wrap_cong:
  assumes h: "(2::int) ^ bits k dvd a - b"
  shows "wrap k a = wrap k b"
proof -
  have "a mod 2 ^ bits k = b mod 2 ^ bits k"
    using h by (simp add: mod_eq_dvd_iff)
  moreover have "(a + 2 ^ (bits k - 1)) mod 2 ^ bits k = (b + 2 ^ (bits k - 1)) mod 2 ^ bits k"
    using h by (simp add: mod_eq_dvd_iff)
  ultimately show ?thesis by (simp add: wrap_def)
qed

lemma toInt32_cong: "(2::int) ^ 32 dvd toInt32 b - b"
proof -
  have "toInt32 b - b = (b + 2 ^ 31) mod 2 ^ 32 - (b + 2 ^ 31)"
    by (simp add: toInt32_def wrap_def)
  moreover have "((b + 2 ^ 31) mod 2 ^ 32 - (b + 2 ^ 31)) mod (2 ^ 32 :: int) = 0"
    by (simp only: mod_diff_left_eq) simp
  ultimately show ?thesis by (simp only: dvd_eq_mod_eq_0)
qed

lemma bits_dvd: "(2::int) ^ bits k dvd 2 ^ 32"
  by (cases k) (simp_all add: le_imp_power_dvd)

text \<open>\<^verbatim>\<open>| 0\<close> on a summand is invisible once the sum is stored in a typed array.\<close>

lemma wrap_toInt32: "wrap k (a + toInt32 b) = wrap k (a + b)"
proof (rule wrap_cong)
  have "(2::int) ^ bits k dvd toInt32 b - b"
    using bits_dvd toInt32_cong dvd_trans by blast
  then show "2 ^ bits k dvd a + toInt32 b - (a + b)" by simp
qed

lemma getIntArray_Some:
  "IntDataType_of ty = Some k \<Longrightarrow> 0 \<le> n \<Longrightarrow>
   getIntArray ty n = Inr (IntArray k (replicate (nat n) 0))"
  by (simp add: getIntArray_def)

subsection \<open>The output buffer\<close>

lemma length_fitted: "length (fitted n es) = n"
  by (simp add: fitted_def)

lemma nth_fitted: "p < n \<Longrightarrow> fitted n es ! p = (if p < length es then es ! p else 0)"
  by (simp add: fitted_def nth_append)

lemma fitted_Nil: "fitted n [] = replicate n 0"
  by (simp add: fitted_def)

lemma set_at_fitted: "set_at (fitted n es) (length es) w = fitted n (es @ [w])"
proof (rule nth_equalityI)
  show "length (set_at (fitted n es) (length es) w) = length (fitted n (es @ [w]))"
    by (simp add: set_at_def length_fitted)
next
  fix p assume "p < length (set_at (fitted n es) (length es) w)"
  then have "p < n" by (simp add: set_at_def length_fitted split: if_splits)
  then show "set_at (fitted n es) (length es) w ! p = fitted n (es @ [w]) ! p"
    by (auto simp: set_at_def length_fitted nth_fitted nth_append nth_list_update)
qed

lemma fitted_zero: "fitted n (es @ [0]) = fitted n es"
  by (rule nth_equalityI) (auto simp: length_fitted nth_fitted nth_append)

subsection \<open>The IntegerPacking loops\<close>

lemma packed_run_spec:
  "packed_run (\<lambda>t. t = u \<or> t = l) data i acc = (i', v, t) \<Longrightarrow>
   (case t of
      Some x \<Rightarrow> i' < length data \<and>
        integerPackingSigned_spec u l acc (drop i data) = (v + x) # integerPackingSigned_spec u l 0 (drop (i' + 1) data)
    | None \<Rightarrow> length data \<le> i' \<and> integerPackingSigned_spec u l acc (drop i data) = [])"
proof (induction "\<lambda>t. t = u \<or> t = l" data i acc rule: packed_run.induct)
  case (1 data i acc)
  show ?case
  proof (cases "i < length data")
    case False
    with 1(2) show ?thesis
      by (subst (asm) packed_run.simps) (auto simp: get_at_def)
  next
    case True
    then have d: "drop i data = data ! i # drop (Suc i) data"
      by (simp add: Cons_nth_drop_Suc)
    show ?thesis
    proof (cases "data ! i = u \<or> data ! i = l")
      case sat: True
      with True 1(2) have "packed_run (\<lambda>t. t = u \<or> t = l) data (i + 1) (acc + data ! i) = (i', v, t)"
        by (subst (asm) packed_run.simps) (auto simp: get_at_def)
      with 1(1) [of "data ! i"] True sat show ?thesis
        by (auto simp: get_at_def d split: option.splits)
    next
      case False
      with True 1(2) have "i' = i" "v = acc" "t = Some (data ! i)"
        by (subst (asm) packed_run.simps, auto simp: get_at_def)+
      with True False d show ?thesis by simp
    qed
  qed
qed

lemma packing_loop_fitted:
  "j = length es \<Longrightarrow> out = fitted n es \<Longrightarrow>
   packing_loop (\<lambda>t. t = u \<or> t = l) data i j out
     = fitted n (es @ map (wrap Int32) (integerPackingSigned_spec u l 0 (drop i data)))"
proof (induction "\<lambda>t. t = u \<or> t = l" data i j out arbitrary: es rule: packing_loop.induct)
  case (1 data i j out)
  show ?case
  proof (cases "i < length data")
    case False
    then show ?thesis using 1(2,3) by (subst packing_loop.simps) simp
  next
    case True
    obtain i' v t where run: "packed_run (\<lambda>t. t = u \<or> t = l) data i 0 = (i', v, t)"
      by (cases "packed_run (\<lambda>t. t = u \<or> t = l) data i 0") auto
    let ?w = "case t of None \<Rightarrow> 0 | Some t \<Rightarrow> wrap Int32 (v + t)"
    have unfold: "packing_loop (\<lambda>t. t = u \<or> t = l) data i j out
        = packing_loop (\<lambda>t. t = u \<or> t = l) data (i' + 1) (j + 1) (set_at out j ?w)"
      using True run by (subst packing_loop.simps) simp
    have out': "set_at out j ?w = fitted n (es @ [?w])"
      using 1(2,3) by (simp add: set_at_fitted)
    have IH: "packing_loop (\<lambda>t. t = u \<or> t = l) data (i' + 1) (j + 1) (set_at out j ?w)
        = fitted n ((es @ [?w]) @ map (wrap Int32) (integerPackingSigned_spec u l 0 (drop (i' + 1) data)))"
      using 1(2) out' by (intro 1(1) [OF True run [symmetric] refl]) simp_all
    show ?thesis
    proof (cases t)
      case None
      with packed_run_spec [OF run] have "length data \<le> i'" 
        and e: "integerPackingSigned_spec u l 0 (drop i data) = []" by simp_all
      then show ?thesis using unfold IH None by (simp add: fitted_zero)
    next
      case (Some x)
      with packed_run_spec [OF run] have 
        "integerPackingSigned_spec u l 0 (drop i data) = (v + x) # integerPackingSigned_spec u l 0 (drop (i' + 1) data)"
        by simp
      then show ?thesis using unfold IH Some by simp
    qed
  qed
qed

subsection \<open>The RunLength loops\<close>

lemma runLength_fill_fitted:
  "runLength_fill c v (length es) (fitted n es) = (length es + c, fitted n (es @ replicate c v))"
proof (induction c arbitrary: es)
  case 0
  show ?case by simp
next
  case (Suc c)
  have "runLength_fill (Suc c) v (length es) (fitted n es)
      = runLength_fill c v (length (es @ [v])) (fitted n (es @ [v]))"
    by (simp add: set_at_fitted)
  also have "\<dots> = (length (es @ [v]) + c, fitted n ((es @ [v]) @ replicate c v))"
    by (rule Suc.IH)
  finally show ?case by (simp add: replicate_app_Cons_same)
qed

lemma runLength_loop_fitted:
  "dataOffset = length es \<Longrightarrow> out = fitted n es \<Longrightarrow>
   runLength_loop data k i dataOffset out
     = fitted n (es @ map (wrap k) (runLength_spec (drop i data)))"
proof (induction data k i dataOffset out arbitrary: es rule: runLength_loop.induct)
  case (1 data k i dataOffset out)
  show ?case
  proof (cases "i < length data")
    case False
    then show ?thesis using 1(2,3) by (subst runLength_loop.simps) simp
  next
    case True
    let ?c = "case get_at data (i + 1) of None \<Rightarrow> 0 | Some l \<Rightarrow> nat l"
    let ?es = "es @ replicate ?c (wrap k (data ! i))"
    have fill: "runLength_fill ?c (wrap k (data ! i)) dataOffset out = (length ?es, fitted n ?es)"
      using 1(2,3) by (simp add: runLength_fill_fitted)
    have unfold: "runLength_loop data k i dataOffset out
        = runLength_loop data k (i + 2) (length ?es) (fitted n ?es)"
      using True fill by (subst runLength_loop.simps) (simp add: Let_def)
    have IH: "runLength_loop data k (i + 2) (length ?es) (fitted n ?es)
        = fitted n (?es @ map (wrap k) (runLength_spec (drop (i + 2) data)))"
      by (rule 1(1) [OF True refl refl fill [symmetric] refl refl])
    have spec: "map (wrap k) (runLength_spec (drop i data))
        = replicate ?c (wrap k (data ! i)) @ map (wrap k) (runLength_spec (drop (i + 2) data))"
    proof (cases "i + 1 < length data")
      case True
      then have "drop i data = data ! i # data ! (i + 1) # drop (i + 2) data"
        by (metis Cons_nth_drop_Suc Suc_eq_plus1 add_lessD1 add_Suc_right one_add_one)
      then show ?thesis using True by (simp add: get_at_def)
    next
      case False
      with \<open>i < length data\<close> have "drop i data = [data ! i]" "drop (i + 2) data = []"
        by (simp_all add: Cons_nth_drop_Suc [symmetric])
      then show ?thesis using False by (simp add: get_at_def)
    qed
    show ?thesis using unfold IH spec by simp
  qed
qed

subsection \<open>The Delta loop\<close>

lemma delta_loop_length: "length (delta_loop data i n out k) = length out"
proof (induction data i n out k rule: delta_loop.induct)
  case (1 data i n out k)
  show ?case
  proof (cases "i < n")
    case True
    with 1 show ?thesis by (subst delta_loop.simps) simp
  next
    case False
    then show ?thesis by (subst delta_loop.simps) simp
  qed
qed

lemma delta_loop_prefix: "j < i \<Longrightarrow> delta_loop data i n out k ! j = out ! j"
proof (induction data i n out k rule: delta_loop.induct)
  case (1 data i n out k)
  show ?case
  proof (cases "i < n")
    case True
    with 1 show ?thesis by (subst delta_loop.simps) simp
  next
    case False
    then show ?thesis by (subst delta_loop.simps) simp
  qed
qed

lemma delta_loop_step:
  "0 < i \<Longrightarrow> i \<le> j \<Longrightarrow> j < n \<Longrightarrow> n \<le> length out \<Longrightarrow>
   delta_loop data i n out k ! j = wrap k (data ! j + delta_loop data i n out k ! (j - 1))"
proof (induction data i n out k rule: delta_loop.induct)
  case (1 data i n out k)
  let ?out = "out[i := wrap k (data ! i + out ! (i - 1))]"
  from 1 have lt: "i < n" by simp
  then have unfold: "delta_loop data i n out k = delta_loop data (i + 1) n ?out k"
    by (subst delta_loop.simps) simp
  show ?case
  proof (cases "j = i")
    case True
    have "delta_loop data (i + 1) n ?out k ! i = ?out ! i"
      by (rule delta_loop_prefix) simp
    moreover have "delta_loop data (i + 1) n ?out k ! (i - 1) = ?out ! (i - 1)"
      using 1 by (intro delta_loop_prefix) simp
    moreover have "?out ! (i - 1) = out ! (i - 1)" using 1 by simp
    moreover have "?out ! i = wrap k (data ! i + out ! (i - 1))" using 1 by simp
    ultimately show ?thesis using True unfold by simp
  next
    case False
    with 1 have "delta_loop data (i + 1) n ?out k ! j
      = wrap k (data ! j + delta_loop data (i + 1) n ?out k ! (j - 1))"
      by (intro 1) simp_all
    then show ?thesis using unfold by simp
  qed
qed

section \<open>Properties of the byte views\<close>

text \<open>
  A window of two bytes at offset 2 of a buffer of four: on a little-endian host the
  Int16 view is over the whole buffer, on a big-endian host over the window;
  \<^verbatim>\<open>int8\<close> runs from the offset to the end of the buffer. On an array that spans its
  buffer the two hosts agree.
\<close>

lemma byte_window_views:
  "int16 True (Uint8Array [1, 0, 2, 0] 2 2) = Inr (IntArray Int16 [1, 2]) \<and>
   int16 False (Uint8Array [1, 0, 2, 0] 2 2) = Inr (IntArray Int16 [2]) \<and>
   int8 (Uint8Array [1, 255, 3] 1 1) = Inr (IntArray Int8 [- 1, 3]) \<and>
   int16 True (Uint8Array [0x34, 0x12, 0xFF, 0xFF] 0 4) = Inr (IntArray Int16 [0x1234, - 1]) \<and>
   int16 False (Uint8Array [0x34, 0x12, 0xFF, 0xFF] 0 4) = Inr (IntArray Int16 [0x1234, - 1])"
  by code_simp

section \<open>The claims on the integer decoders\<close>

text \<open>
  C1. The signed IntegerPacking decoder (isUnsigned false) walks the input left to right,
  accumulating a running sum while the current token equals \<open>upper\<close> (0x7F for byteCount
  1, 0x7FFF otherwise) or \<open>lower = - upper - 1\<close>, then adds the first token that is
  neither, emits the sum into the Int32 output and resets the accumulator: the output
  is what \<open>integerPackingSigned_spec\<close> emits, stored as Int32 in a zero-filled buffer of
  length srcSize (saturated tokens at the end of the input, with no token to close their
  sum, emit nothing). In particular the Int8 input [127, 127, 1, -128, -1, 5] with
  srcSize 3 decodes to [255, -129, 5].
\<close>

theorem integerPacking_signed_running_sum:
  "(0 \<le> sz \<longrightarrow>
      integerPacking data (IntegerPacking bc False sz)
        = Inr (IntArray Int32 (fitted (nat sz) (map (wrap Int32)
            (integerPackingSigned_spec (if bc = 1 then 0x7F else 0x7FFF)
               (- (if bc = 1 then 0x7F else 0x7FFF) - 1) 0 data))))) \<and>
   integerPackingSigned_spec 0x7F (- 0x7F - 1) 0 [127, 127, 1, - 128, - 1, 5] = [255, - 129, 5] \<and>
   integerPacking [127, 127, 1, - 128, - 1, 5] (IntegerPacking 1 False 3)
     = Inr (IntArray Int32 [255, - 129, 5])"
proof (intro conjI impI)
  assume sz: "0 \<le> sz"
  let ?u = "if bc = 1 then 0x7F else (0x7FFF::int)"
  have "packing_loop (\<lambda>t. t = ?u \<or> t = - ?u - 1) data 0 0 (replicate (nat sz) 0)
      = fitted (nat sz) ([] @ map (wrap Int32) (integerPackingSigned_spec ?u (- ?u - 1) 0 (drop 0 data)))"
    by (rule packing_loop_fitted) (simp_all add: fitted_Nil)
  then show "integerPacking data (IntegerPacking bc False sz)
        = Inr (IntArray Int32 (fitted (nat sz) (map (wrap Int32)
            (integerPackingSigned_spec ?u (- ?u - 1) 0 data))))"
    using sz by (simp add: integerPacking_def integerPackingSigned_def Let_def)
next
  show "integerPackingSigned_spec 0x7F (- 0x7F - 1) 0 [127, 127, 1, - 128, - 1, 5] = [255, - 129, 5]"
    by simp
next
  show "integerPacking [127, 127, 1, - 128, - 1, 5] (IntegerPacking 1 False 3)
     = Inr (IntArray Int32 [255, - 129, 5])"
    by code_simp
qed

theorem integerPacking_signed_running_sum_witness:
  "(0::int) \<le> 4 \<and>
   integerPacking [32767, 32767, 2, - 32768, - 3, 32767] (IntegerPacking 2 False 4)
     = Inr (IntArray Int32 [65536, - 32771, 0, 0])"
  using integerPacking_signed_running_sum [of 4 "[32767, 32767, 2, - 32768, - 3, 32767]" 2]
  by (simp add: fitted_def wrap_def eval_nat_numeral)

text \<open>
  C2. For every integer input sequence of length n and every origin, the Delta decoder
  with a srcType of the enumeration returns an output of length n in that type with
  \<open>out[0] = in[0] + origin\<close> and \<open>out[i] = in[i] + out[i - 1]\<close> for \<open>i \<ge> 1\<close>, the
  sums wrapping in srcType; an empty input yields an empty output. In particular origin
  10 over the Int32 input [1, 2, 3, -1] yields [11, 13, 16, 15].
\<close>

theorem delta_cumulative_sum:
  "(IntDataType_of ty = Some k \<longrightarrow>
      (\<exists>out. delta data (Delta orig ty) = Inr (IntArray k out) \<and> length out = length data \<and>
         (data \<noteq> [] \<longrightarrow> out ! 0 = wrap k (data ! 0 + orig)) \<and>
         (\<forall>i. 1 \<le> i \<and> i < length data \<longrightarrow> out ! i = wrap k (data ! i + out ! (i - 1))))) \<and>
   delta [] (Delta orig 3) = Inr (IntArray Int32 []) \<and>
   delta [1, 2, 3, - 1] (Delta 10 3) = Inr (IntArray Int32 [11, 13, 16, 15])"
proof (intro conjI impI)
  assume ty: "IntDataType_of ty = Some k"
  let ?n = "length data"
  let ?z = "replicate ?n (0::int)"
  let ?o0 = "?z[0 := wrap k (data ! 0 + toInt32 orig)]"
  let ?out = "if data = [] then ?z else delta_loop data 1 ?n ?o0 k"
  have arr: "getIntArray ty (int ?n) = Inr (IntArray k ?z)"
    using ty by (simp add: getIntArray_Some del: IntDataType_of.simps)
  have res: "delta data (Delta orig ty) = Inr (IntArray k ?out)"
    by (simp add: delta_def arr Let_def)
  have len: "length ?out = ?n"
    by (simp add: delta_loop_length)
  have first: "?out ! 0 = wrap k (data ! 0 + orig)" if "data \<noteq> []"
  proof -
    have "delta_loop data 1 ?n ?o0 k ! 0 = ?o0 ! 0"
      by (rule delta_loop_prefix) simp
    then show ?thesis using that by (simp add: wrap_toInt32)
  qed
  have step: "?out ! i = wrap k (data ! i + ?out ! (i - 1))" if "1 \<le> i \<and> i < ?n" for i
  proof -
    from that have ne: "data \<noteq> []" by auto
    have "delta_loop data 1 ?n ?o0 k ! i
      = wrap k (data ! i + delta_loop data 1 ?n ?o0 k ! (i - 1))"
      using that by (intro delta_loop_step) simp_all
    then show ?thesis using ne by simp
  qed
  show "\<exists>out. delta data (Delta orig ty) = Inr (IntArray k out) \<and> length out = length data \<and>
         (data \<noteq> [] \<longrightarrow> out ! 0 = wrap k (data ! 0 + orig)) \<and>
         (\<forall>i. 1 \<le> i \<and> i < length data \<longrightarrow> out ! i = wrap k (data ! i + out ! (i - 1)))"
    using res len first step by blast
next
  show "delta [] (Delta orig 3) = Inr (IntArray Int32 [])"
    by (simp add: delta_def getIntArray_def)
next
  show "delta [1, 2, 3, - 1] (Delta 10 3) = Inr (IntArray Int32 [11, 13, 16, 15])"
    by code_simp
qed

theorem delta_cumulative_sum_witness:
  "IntDataType_of 1 = Some Int8 \<and>
   (\<exists>out. delta [100, 100] (Delta 5 1) = Inr (IntArray Int8 out) \<and> length out = 2 \<and>
      out ! 0 = 105 \<and> out ! 1 = - 51)"
proof -
  have ty: "IntDataType_of 1 = Some Int8" by simp
  from delta_cumulative_sum [of 1 Int8 "[100, 100]" 5] ty
  obtain out where res: "delta [100, 100] (Delta 5 1) = Inr (IntArray Int8 out)"
    and len: "length out = 2"
    and first: "out ! 0 = wrap Int8 (100 + 5)"
    and step: "\<forall>i. 1 \<le> i \<and> i < 2 \<longrightarrow> out ! i = wrap Int8 ([100, 100] ! i + out ! (i - 1))"
    by auto
  from step have "out ! 1 = wrap Int8 (100 + out ! 0)" by simp
  with first have "out ! 0 = 105" "out ! 1 = - 51" by (simp_all add: wrap_def)
  with res len ty show ?thesis by blast
qed

text \<open>
  C3, as the specification states it: a RunLength decode whose emitted count differs
  from srcSize fails. It does not: with three values emitted for srcSize 5 the call
  returns them followed by two zeros, and with five emitted for srcSize 4 it returns
  the first four.
\<close>

theorem runLength_mismatch_counterexample:
  "length (runLength_spec [7, 3]) \<noteq> 5 \<and>
   runLength [7, 3] (RunLength 3 5) = Inr (IntArray Int32 [7, 7, 7, 0, 0]) \<and>
   length (runLength_spec [7, 3, 2, 2]) \<noteq> 4 \<and>
   runLength [7, 3, 2, 2] (RunLength 3 4) = Inr (IntArray Int32 [7, 7, 7, 2])"
  by code_simp

text \<open>
  C3, amended. For every RunLength decode with a srcType of the enumeration and a
  srcSize that is not negative (and that the engine can allocate), the call does not
  fail, whatever the sum of the run lengths: it returns exactly srcSize elements, the
  emitted values wrapped in srcType, cut at srcSize when there are more and followed by
  zeros when there are fewer.
\<close>

theorem runLength_fits_srcSize:
  "IntDataType_of ty = Some k \<Longrightarrow> 0 \<le> sz \<Longrightarrow>
   runLength data (RunLength ty sz)
     = Inr (IntArray k (fitted (nat sz) (map (wrap k) (runLength_spec data))))"
proof -
  assume ty: "IntDataType_of ty = Some k" and sz: "0 \<le> sz"
  have "runLength_loop data k 0 0 (replicate (nat sz) 0)
      = fitted (nat sz) ([] @ map (wrap k) (runLength_spec (drop 0 data)))"
    by (rule runLength_loop_fitted) (simp_all add: fitted_Nil)
  then show ?thesis
    using ty sz by (simp add: runLength_def getIntArray_Some del: IntDataType_of.simps)
qed

theorem runLength_fits_srcSize_witness:
  "IntDataType_of 3 = Some Int32 \<and> (0::int) \<le> 5 \<and>
   runLength [7, 3, 2, 2] (RunLength 3 5) = Inr (IntArray Int32 [7, 7, 7, 2, 2])"
  using runLength_fits_srcSize [of 3 Int32 5 "[7, 3, 2, 2]"]
  by (simp add: fitted_def wrap_def eval_nat_numeral)

section \<open>The claims on the float decoders and the pipeline\<close>

lemma fdiv_by_zero: "fdiv a (fsub (Fin 1) (Fin 1)) \<in> {NaN, PosInfinity, NegInfinity}"
  by (cases a) (auto simp: fdiv_def fsub_def signed_inf_def)

text \<open>
  C4, as the specification states it: an IntervalQuantization decode with numSteps = 1
  fails. It does not: the step is \<open>(1 - 0) / (1 - 1)\<close>, an infinity, and the call returns
  the sequence of \<open>0 + step * in[i]\<close>.
\<close>

theorem intervalQuantization_numSteps_counterexample:
  "intervalQuantization (map number_of_int [0, 2, 4])
     (IntervalQuantization (Fin 0) (Fin 1) (Fin 1) 33)
     = Inr (FloatArray Float64 [NaN, PosInfinity, PosInfinity])"
  by (simp add: intervalQuantization_def getFloatArray_def number_of_int_def fsub_def fdiv_def
      fmul_def signed_inf_def)

text \<open>
  C4, amended. For every IntervalQuantization decode with srcType Float32 or Float64
  the call does not fail, whatever numSteps is, also below 2: it returns the sequence
  of \<open>min + step * in[i]\<close>, of the length of the input, with
  \<open>step = (max - min) / (numSteps - 1)\<close>; for numSteps = 1 the step is an infinity or
  NaN.
\<close>

theorem intervalQuantization_never_fails:
  "FloatDataType_of st = Some k \<Longrightarrow>
   (\<exists>out. intervalQuantization data (IntervalQuantization mn mx ns st) = Inr (FloatArray k out) \<and>
      length out = length data \<and>
      (\<forall>i < length data. out ! i
         = float_store k (fadd mn (fmul (fdiv (fsub mx mn) (fsub ns (Fin 1))) (data ! i))))) \<and>
   fdiv (fsub mx mn) (fsub (Fin 1) (Fin 1)) \<in> {NaN, PosInfinity, NegInfinity}"
  using fdiv_by_zero [of "fsub mx mn"]
  by (simp add: intervalQuantization_def getFloatArray_def del: FloatDataType_of.simps)

theorem intervalQuantization_never_fails_witness:
  "FloatDataType_of 32 = Some Float32 \<and>
   (\<exists>out. intervalQuantization [Fin 0, Fin 3] (IntervalQuantization (Fin 2) (Fin 2) (Fin 1) 32)
       = Inr (FloatArray Float32 out) \<and> length out = 2 \<and> out ! 0 = NaN \<and> out ! 1 = NaN)"
proof -
  have ty: "FloatDataType_of 32 = Some Float32" by simp
  from intervalQuantization_never_fails [OF ty, of "[Fin 0, Fin 3]" "Fin 2" "Fin 2" "Fin 1"]
  obtain out where res: "intervalQuantization [Fin 0, Fin 3]
        (IntervalQuantization (Fin 2) (Fin 2) (Fin 1) 32) = Inr (FloatArray Float32 out)"
    and len: "length out = 2"
    and el: "\<forall>i<2. out ! i = float_store Float32
        (fadd (Fin 2) (fmul (fdiv (fsub (Fin 2) (Fin 2)) (fsub (Fin 1) (Fin 1))) ([Fin 0, Fin 3] ! i)))"
    by auto
  have step: "fdiv (fsub (Fin 2) (Fin 2)) (fsub (Fin 1) (Fin 1)) = NaN"
    by (simp add: fsub_def fdiv_def)
  from el have "out ! 0 = NaN" "out ! 1 = NaN"
    by (simp_all add: step fmul_def)
  with res len ty show ?thesis by blast
qed

text \<open>
  C5, as the specification states it: the decode step fails on a descriptor of an
  unknown kind. It does not: the switch has no default, and the step returns
  \<^verbatim>\<open>undefined\<close>.
\<close>

theorem decodeStep_unknown_kind_counterexample:
  "decodeStep True (Some (IntArray Uint8 [1, 2])) (OtherKind ''Foo'') = Inr None"
  by simp

text \<open>
  C5, amended. For every encoding descriptor whose kind is none of the seven
  enumerated kinds, the pipeline decode step does not fail: it returns \<^verbatim>\<open>undefined\<close>,
  whatever the data, and the pipeline goes on with \<^verbatim>\<open>undefined\<close> as the current value
  (and returns it when the descriptor is the first of the stack).
\<close>

theorem decodeStep_unknown_kind_undefined:
  "decodeStep le data (OtherKind k) = Inr None \<and>
   decode_loop le data (encs @ [OtherKind k]) = decode_loop le None encs \<and>
   decode le (EncodedData [OtherKind k] bytes) = Inr None"
proof (intro conjI)
  show "decodeStep le data (OtherKind k) = Inr None" by simp
  show "decode_loop le data (encs @ [OtherKind k]) = decode_loop le None encs"
    by (subst decode_loop.simps) simp
  show "decode le (EncodedData [OtherKind k] bytes) = Inr None"
    by (simp add: decode_def decode_loop.simps [of _ _ "[OtherKind k]"] decode_loop.simps [of _ _ "[]"])
qed

section \<open>The claims on the columns\<close>

lemma number_eq_refl: "number_eq a a = (a \<noteq> NaN)"
  by (simp add: number_eq_def)

lemma strict_eq_refl: "strict_eq v v = (v \<noteq> JNum NaN)"
  by (cases v) (simp_all add: number_eq_refl)

lemma map_sum_id_Inr: "(map_sum id f x = Inr y) = (\<exists>z. x = Inr z \<and> y = f z)"
  by (cases x) auto

text \<open>The string decoder stores \<^verbatim>\<open>null\<close> at the rows of a negative index, and only there.\<close>

lemma stringArray_loop_null:
  "stringArray_loop str table cache indices = Inr ss \<Longrightarrow>
   length ss = length indices \<and> (\<forall>r < length indices. (ss ! r = None) = (indices ! r < 0))"
proof (induction indices arbitrary: cache ss)
  case Nil
  then show ?case by simp
next
  case (Cons i indices)
  from Cons.prems obtain x cache' rest where
    rest: "stringArray_loop str table cache' indices = Inr rest"
    and ss: "ss = x # rest" and x: "(x = None) = (i < 0)"
    by (auto simp: Let_def map_sum_id_Inr split: if_splits option.splits jsarray.splits)
  from Cons.IH [OF rest] have len: "length rest = length indices"
    and el: "\<forall>r < length indices. (rest ! r = None) = (indices ! r < 0)" by simp_all
  show ?case
  proof (intro conjI allI impI)
    show "length ss = length (i # indices)" using ss len by simp
  next
    fix r assume "r < length (i # indices)"
    then show "(ss ! r = None) = ((i # indices) ! r < 0)"
      using ss x el by (cases r) simp_all
  qed
qed

text \<open>
  C6, as the specification states it: on a masked column \<open>getString(r)\<close> is \<^verbatim>\<open>null\<close> if
  and only if \<open>getValuePresence(r)\<close> is not Present. A string column whose index
  sequence holds -1 at a row that the mask marks Present decodes to a
  MaskedStringColumn with \<^verbatim>\<open>null\<close> stored at that row: \<open>getString\<close> is \<^verbatim>\<open>null\<close> there and the
  presence is Present.
\<close>

theorem masked_presence_counterexample:
  "wrapColumn True
     (EncodedColumn ''a''
        (EncodedData
           [StringArray [ByteArray 1] ''foobar'' [ByteArray 4] (Uint8Array [0, 3, 6] 0 3)]
           (Some (Uint8Array [255] 0 1)))
        (Some (EncodedData [ByteArray 4] (Some (Uint8Array [0] 0 1)))))
     = Inr (MaskedStringColumn (Strings [None]) (Bytes (Uint8Array [0] 0 1))) \<and>
   MaskedStringColumn_getString (Strings [None]) (Bytes (Uint8Array [0] 0 1)) 0 = JNull \<and>
   getValuePresence (MaskedStringColumn (Strings [None]) (Bytes (Uint8Array [0] 0 1))) 0 = Present"
  by code_simp

text \<open>
  C6, amended. For every masked column and every row r: when \<open>getValuePresence(r)\<close> is
  not Present, \<open>getString(r)\<close> is \<^verbatim>\<open>null\<close>. On a MaskedNumericColumn \<open>getString(r)\<close> is
  \<^verbatim>\<open>null\<close> only then; on a MaskedStringColumn it is \<^verbatim>\<open>null\<close> only then or when the string
  stored at r is itself \<^verbatim>\<open>null\<close>, which the string decoder stores at the rows of a
  negative index and at no other.
\<close>

theorem masked_presence_consistency:
  "(getString ns (MaskedNumericColumn d m) r = JNull)
     = (\<not> strict_eq (getValuePresence (MaskedNumericColumn d m) r) Present) \<and>
   (getString ns (MaskedStringColumn ds ms) rs = JNull)
     = (\<not> strict_eq (getValuePresence (MaskedStringColumn ds ms) rs) Present \<or> element ds rs = JNull) \<and>
   (stringArray_loop str table cache indices = Inr ss \<and> ri < length indices \<longrightarrow>
      (element (Strings ss) ri = JNull) = (indices ! ri < 0))"
proof (intro conjI impI)
  show "(getString ns (MaskedNumericColumn d m) r = JNull)
     = (\<not> strict_eq (getValuePresence (MaskedNumericColumn d m) r) Present)"
    by (cases "strict_eq (element m r) Present") (simp_all add: MaskedNumericColumn_getString_def)
next
  show "(getString ns (MaskedStringColumn ds ms) rs = JNull)
     = (\<not> strict_eq (getValuePresence (MaskedStringColumn ds ms) rs) Present \<or> element ds rs = JNull)"
    by (cases "strict_eq (element ms rs) Present") (simp_all add: MaskedStringColumn_getString_def)
next
  assume h: "stringArray_loop str table cache indices = Inr ss \<and> ri < length indices"
  then have "length ss = length indices" and "(ss ! ri = None) = (indices ! ri < 0)"
    using stringArray_loop_null [of str table cache indices ss] by simp_all
  with h show "(element (Strings ss) ri = JNull) = (indices ! ri < 0)"
    by (cases "ss ! ri") (simp_all add: get_at_def)
qed

theorem masked_presence_consistency_witness:
  "getString (\<lambda>x. ''0'') (MaskedNumericColumn (IntArray Int32 [0, 0, 5]) (IntArray Uint8 [0, 1, 2])) 1 = JNull \<and>
   getString (\<lambda>x. ''0'') (MaskedNumericColumn (IntArray Int32 [0, 0, 5]) (IntArray Uint8 [0, 1, 2])) 0 \<noteq> JNull \<and>
   getString (\<lambda>x. ''0'') (MaskedStringColumn (Strings [Some ''foo'', None]) (IntArray Uint8 [0, 2])) 1 = JNull \<and>
   getString (\<lambda>x. ''0'') (MaskedStringColumn (Strings [Some ''foo'', None]) (IntArray Uint8 [0, 2])) 0 \<noteq> JNull \<and>
   stringArray_loop ''foobar'' (Some (IntArray Uint8 [0, 3, 6])) Map.empty [0, - 1]
     = Inr [Some ''foo'', None] \<and>
   element (Strings [Some ''foo'', None]) 1 = JNull"
proof -
  have loop: "stringArray_loop ''foobar'' (Some (IntArray Uint8 [0, 3, 6])) Map.empty [0, - 1]
     = Inr [Some ''foo'', None]"
    by code_simp
  show ?thesis
    using masked_presence_consistency [of "\<lambda>x. ''0''" "IntArray Int32 [0, 0, 5]" "IntArray Uint8 [0, 1, 2]" 1
        "Strings [Some ''foo'', None]" "IntArray Uint8 [0, 2]" 1
        "''foobar''" "Some (IntArray Uint8 [0, 3, 6])" Map.empty "[0, - 1]" "[Some ''foo'', None]" 1]
      masked_presence_consistency [of "\<lambda>x. ''0''" "IntArray Int32 [0, 0, 5]" "IntArray Uint8 [0, 1, 2]" 0
        "Strings [Some ''foo'', None]" "IntArray Uint8 [0, 2]" 0]
      loop
    by (simp add: Present_def get_at_def number_eq_def number_of_int_def)
qed

text \<open>
  C7. \<open>getInteger(r)\<close> returns an integer: on a numeric backing store the stored value
  truncated toward zero, on a string backing store the result of the fast integer parser
  on the stored string, and 0 on a row that is not Present. \<^verbatim>\<open>NumericColumn\<close> does so with
  \<^verbatim>\<open>data[row] | 0\<close>; \<^verbatim>\<open>MaskedNumericColumn\<close> returns \<^verbatim>\<open>data[row]\<close> as it is stored. A Float32
  column with a mask that holds 1.5 at a Present row reads 1.5 there, no integer, where
  the same store under \<^verbatim>\<open>NumericColumn\<close> reads 1. Likewise \<^verbatim>\<open>MaskedStringColumn\<close> parses
  \<^verbatim>\<open>v || ''\<close>, and \<^verbatim>\<open>StringColumn\<close> reads \<^verbatim>\<open>v.length\<close> of a stored \<^verbatim>\<open>null\<close>, a TypeError.
\<close>

theorem getInteger_masked_untruncated:
  "wrapColumn True
     (EncodedColumn ''m''
        (EncodedData [ByteArray 32] (Some (Uint8Array [0, 0, 0xC0, 0x3F] 0 4)))
        (Some (EncodedData [ByteArray 4] (Some (Uint8Array [0] 0 1)))))
     = Inr (MaskedNumericColumn (FloatArray Float32 [Fin (3 / 2)]) (Bytes (Uint8Array [0] 0 1))) \<and>
   getValuePresence
     (MaskedNumericColumn (FloatArray Float32 [Fin (3 / 2)]) (Bytes (Uint8Array [0] 0 1))) 0
     = Present \<and>
   MaskedNumericColumn_getInteger (FloatArray Float32 [Fin (3 / 2)]) (Bytes (Uint8Array [0] 0 1)) 0
     = Inr (JNum (Fin (3 / 2))) \<and>
   NumericColumn_getInteger (FloatArray Float32 [Fin (3 / 2)]) 0 = Inr (JNum (Fin 1)) \<and>
   wrapColumn True
     (EncodedColumn ''s''
        (EncodedData
           [StringArray [ByteArray 1] ''foobar'' [ByteArray 4] (Uint8Array [0, 3, 6] 0 3)]
           (Some (Uint8Array [255] 0 1)))
        None)
     = Inr (StringColumn (Strings [None])) \<and>
   StringColumn_getInteger p (Strings [None]) 0 = Inl TypeError \<and>
   MaskedStringColumn_getInteger p (Strings [None]) (Bytes (Uint8Array [0] 0 1)) 0
     = Inr (JNum (p [] 0 0))"
proof (intro conjI)
  show "StringColumn_getInteger p (Strings [None]) 0 = Inl TypeError"
    by (simp add: StringColumn_getInteger_def get_at_def)
  show "MaskedStringColumn_getInteger p (Strings [None]) (Bytes (Uint8Array [0] 0 1)) 0
     = Inr (JNum (p [] 0 0))"
    by (simp add: MaskedStringColumn_getInteger_def get_at_def bytes_of_def Present_def
        number_of_int_def number_eq_def)
qed code_simp+

text \<open>
  C8, as the specification states it: \<open>areValuesEqual(r, r)\<close> is true for every row. A
  Float32 column whose bytes are those of a NaN decodes to a NumericColumn holding NaN,
  and \<^verbatim>\<open>NaN === NaN\<close> is false.
\<close>

theorem areValuesEqual_NaN_counterexample:
  "wrapColumn True
     (EncodedColumn ''f'' (EncodedData [ByteArray 32] (Some (Uint8Array [0, 0, 0xC0, 0x7F] 0 4))) None)
     = Inr (NumericColumn (FloatArray Float32 [NaN])) \<and>
   \<not> areValuesEqual (NumericColumn (FloatArray Float32 [NaN])) 0 0"
  by code_simp

text \<open>
  C8, amended. For every materialized column of any of the four variants and every
  row r, \<open>areValuesEqual(r, r)\<close> is true unless the value stored at r is NaN, where it
  is false; it is true at every row of an integer or string backing store.
\<close>

theorem areValuesEqual_reflexive_but_NaN:
  "areValuesEqual (NumericColumn d) r r = (element d r \<noteq> JNum NaN) \<and>
   areValuesEqual (MaskedNumericColumn d m) r r = (element d r \<noteq> JNum NaN) \<and>
   areValuesEqual (StringColumn d) r r = (element d r \<noteq> JNum NaN) \<and>
   areValuesEqual (MaskedStringColumn d m) r r = (element d r \<noteq> JNum NaN) \<and>
   element (IntArray k xs) r \<noteq> JNum NaN \<and>
   element (Strings ss) r \<noteq> JNum NaN \<and>
   element (Bytes a) r \<noteq> JNum NaN"
proof -
  have same: "strict_eq (element d r) (element d r) = (element d r \<noteq> JNum NaN)"
    by (rule strict_eq_refl)
  have ints: "element (IntArray k xs) r \<noteq> JNum NaN"
    by (simp add: number_of_int_def split: option.splits)
  have strings: "element (Strings ss) r \<noteq> JNum NaN"
    by (simp split: option.splits)
  have bytes: "element (Bytes a) r \<noteq> JNum NaN"
    by (simp add: number_of_int_def split: option.splits)
  from same ints strings bytes show ?thesis by simp
qed

theorem areValuesEqual_reflexive_but_NaN_witness:
  "areValuesEqual (MaskedNumericColumn (FloatArray Float64 [Fin (3 / 2), NaN]) (IntArray Uint8 [0, 1])) 0 0 \<and>
   \<not> areValuesEqual (MaskedNumericColumn (FloatArray Float64 [Fin (3 / 2), NaN]) (IntArray Uint8 [0, 1])) 1 1"
  using areValuesEqual_reflexive_but_NaN [of "FloatArray Float64 [Fin (3 / 2), NaN]" 0 "IntArray Uint8 [0, 1]"]
    areValuesEqual_reflexive_but_NaN [of "FloatArray Float64 [Fin (3 / 2), NaN]" 1 "IntArray Uint8 [0, 1]"]
  by (simp add: get_at_def)

section \<open>The claims on the categories\<close>

lemma Category_columns_eq:
  "Category_columns cs m names
     = (m ++ map_of (rev (map (\<lambda>c. (col_name c, c)) cs)), names @ map col_name cs)"
proof (induction cs arbitrary: m names)
  case Nil
  show ?case by simp
next
  case (Cons c cs)
  have h: "m(col_name c \<mapsto> c) ++ map_of (rev (map (\<lambda>c. (col_name c, c)) cs))
      = m ++ map_of (rev (map (\<lambda>c. (col_name c, c)) (c # cs)))" (is "?L = ?R")
  proof (rule ext)
    fix x
    show "?L x = ?R x"
      by (simp add: map_add_def split: option.splits)
  qed
  have "Category_columns (c # cs) m names = (?L, (names @ [col_name c]) @ map col_name cs)"
    by (simp only: Category_columns.simps Cons.IH)
  then show ?case
    by (simp only: h append_assoc list.map append.simps)
qed

lemma encodedColumns_new_Category:
  "encodedColumns (new_Category d) = map_of (rev (map (\<lambda>c. (col_name c, c)) (cat_columns d)))"
  by (simp add: new_Category_def Category_columns_eq)

lemma columnNames_new_Category: "columnNames (new_Category d) = map col_name (cat_columns d)"
  by (simp add: new_Category_def Category_columns_eq columnNames_def)

lemma encodedColumns_None:
  "(encodedColumns (new_Category d) name = None) = (name \<notin> set (columnNames (new_Category d)))"
  by (simp add: encodedColumns_new_Category columnNames_new_Category map_of_eq_None_iff image_image)

lemma encodedColumns_Some:
  "encodedColumns (new_Category d) name = Some w \<Longrightarrow> w \<in> set (cat_columns d) \<and> col_name w = name"
  by (auto simp: encodedColumns_new_Category dest!: map_of_SomeD)

lemma encodedColumns_distinct:
  "distinct (map col_name (cat_columns d)) \<Longrightarrow> w \<in> set (cat_columns d) \<Longrightarrow>
   encodedColumns (new_Category d) (col_name w) = Some w"
proof -
  assume dist: "distinct (map col_name (cat_columns d))" and w: "w \<in> set (cat_columns d)"
  let ?ps = "rev (map (\<lambda>c. (col_name c, c)) (cat_columns d))"
  have "distinct (map fst ?ps)" using dist by (simp add: rev_map [symmetric] comp_def)
  moreover have "(col_name w, w) \<in> set ?ps" using w by auto
  ultimately have "map_of ?ps (col_name w) = Some w" by (rule map_of_is_SomeI)
  then show ?thesis by (simp add: encodedColumns_new_Category)
qed

lemma wrapColumn_isDefined:
  "wrapColumn le w = Inr c \<Longrightarrow> isDefined c = (ed_data (col_data w) \<noteq> None)"
  by (auto simp: wrapColumn_def UndefinedColumn_isDefined_def split: sum.splits option.splits if_splits)

lemma wrapColumn_no_buffer: "ed_data (col_data w) = None \<Longrightarrow> wrapColumn le w = Inr UndefinedColumn"
  by (simp add: wrapColumn_def)

text \<open>
  C9, as the specification states it: for every known column name the column that
  \<open>getColumn\<close> returns has \<open>isDefined\<close> true. A category with a column \<open>b\<close> whose data
  record carries no byte buffer knows the name \<open>b\<close>, and \<open>getColumn\<close> returns the sentinel
  for it, whose \<open>isDefined\<close> is false.
\<close>

theorem getColumn_known_name_counterexample:
  "''b'' \<in> set (columnNames (new_Category
      (EncodedCategory ''c'' 1 [EncodedColumn ''b'' (EncodedData [ByteArray 4] None) None]))) \<and>
   getColumn True (new_Category
      (EncodedCategory ''c'' 1 [EncodedColumn ''b'' (EncodedData [ByteArray 4] None) None])) ''b''
     = Inr UndefinedColumn \<and>
   \<not> isDefined UndefinedColumn"
  by (simp add: new_Category_def columnNames_def getColumn_def wrapColumn_def
      UndefinedColumn_isDefined_def)

text \<open>
  C9, amended. For every Category and every name not among its column names,
  \<open>getColumn(name)\<close> does not fail: it returns the UndefinedColumn sentinel, whose
  \<open>isDefined\<close> flag is false and whose getters return neutral defaults (\<^verbatim>\<open>null\<close>, 0,
  Present). For every known column name, a call of \<open>getColumn\<close> that returns gives a
  column whose \<open>isDefined\<close> is true exactly when the data record of the column of that
  name carries a byte buffer.
\<close>

theorem getColumn_sentinel:
  "(name \<notin> set (columnNames (new_Category d)) \<longrightarrow>
      getColumn le (new_Category d) name = Inr UndefinedColumn) \<and>
   \<not> isDefined UndefinedColumn \<and>
   getString ns UndefinedColumn r = JNull \<and>
   getInteger p UndefinedColumn r = Inr (JNum (Fin 0)) \<and>
   getValuePresence UndefinedColumn r = Present \<and>
   (known \<in> set (columnNames (new_Category e)) \<and> getColumn le (new_Category e) known = Inr c \<longrightarrow>
      (\<exists>w. encodedColumns (new_Category e) known = Some w \<and> w \<in> set (cat_columns e) \<and>
         col_name w = known \<and> isDefined c = (ed_data (col_data w) \<noteq> None)))"
proof (intro conjI impI)
  assume "name \<notin> set (columnNames (new_Category d))"
  then have "encodedColumns (new_Category d) name = None"
    by (simp add: encodedColumns_None)
  then show "getColumn le (new_Category d) name = Inr UndefinedColumn"
    by (simp add: getColumn_def)
next
  assume h: "known \<in> set (columnNames (new_Category e)) \<and> getColumn le (new_Category e) known = Inr c"
  then have "encodedColumns (new_Category e) known \<noteq> None"
    by (simp add: encodedColumns_None)
  then obtain w where w: "encodedColumns (new_Category e) known = Some w" by auto
  with h have "wrapColumn le w = Inr c" by (simp add: getColumn_def)
  then have "isDefined c = (ed_data (col_data w) \<noteq> None)" by (rule wrapColumn_isDefined)
  with w encodedColumns_Some [OF w]
  show "\<exists>w. encodedColumns (new_Category e) known = Some w \<and> w \<in> set (cat_columns e) \<and>
         col_name w = known \<and> isDefined c = (ed_data (col_data w) \<noteq> None)"
    by blast
qed (simp_all add: UndefinedColumn_isDefined_def UndefinedColumn_getString_def
    UndefinedColumn_getInteger_def UndefinedColumn_getValuePresence_def)

theorem getColumn_sentinel_witness:
  "''nope'' \<notin> set (columnNames (new_Category
      (EncodedCategory ''c'' 1 [EncodedColumn ''a'' (EncodedData [ByteArray 4] (Some (Uint8Array [7] 0 1))) None]))) \<and>
   getColumn True (new_Category
      (EncodedCategory ''c'' 1 [EncodedColumn ''a'' (EncodedData [ByteArray 4] (Some (Uint8Array [7] 0 1))) None])) ''nope''
     = Inr UndefinedColumn \<and>
   ''a'' \<in> set (columnNames (new_Category
      (EncodedCategory ''c'' 1 [EncodedColumn ''a'' (EncodedData [ByteArray 4] (Some (Uint8Array [7] 0 1))) None]))) \<and>
   getColumn True (new_Category
      (EncodedCategory ''c'' 1 [EncodedColumn ''a'' (EncodedData [ByteArray 4] (Some (Uint8Array [7] 0 1))) None])) ''a''
     = Inr (NumericColumn (Bytes (Uint8Array [7] 0 1))) \<and>
   isDefined (NumericColumn (Bytes (Uint8Array [7] 0 1)))"
proof -
  let ?d = "EncodedCategory ''c'' 1 [EncodedColumn ''a'' (EncodedData [ByteArray 4] (Some (Uint8Array [7] 0 1))) None]"
  have names: "columnNames (new_Category ?d) = [''a'']"
    by (simp add: new_Category_def columnNames_def)
  have col: "getColumn True (new_Category ?d) ''a'' = Inr (NumericColumn (Bytes (Uint8Array [7] 0 1)))"
    by (simp add: new_Category_def getColumn_def wrapColumn_def decode_def
        decode_loop.simps [of _ _ "[ByteArray 4]"] decode_loop.simps [of _ _ "[]"])
  from getColumn_sentinel [of "''nope''" ?d True "\<lambda>x. []" 0 "\<lambda>s i j. Fin 0" "''a''" ?d
      "NumericColumn (Bytes (Uint8Array [7] 0 1))"] names col
  show ?thesis by simp
qed

text \<open>
  C10. For every column of a category whose data record carries no byte buffer,
  \<open>getColumn\<close> on its name returns the UndefinedColumn sentinel (\<open>isDefined\<close> false)
  without decoding and without an error. The names of a category are distinct; among
  columns of one name, the category holds the last.
\<close>

theorem getColumn_without_buffer:
  "distinct (map col_name (cat_columns d)) \<Longrightarrow> w \<in> set (cat_columns d) \<Longrightarrow>
   ed_data (col_data w) = None \<Longrightarrow>
   getColumn le (new_Category d) (col_name w) = Inr UndefinedColumn \<and> \<not> isDefined UndefinedColumn"
proof -
  assume "distinct (map col_name (cat_columns d))" and "w \<in> set (cat_columns d)"
    and none: "ed_data (col_data w) = None"
  then have "encodedColumns (new_Category d) (col_name w) = Some w"
    by (simp add: encodedColumns_distinct)
  then show ?thesis
    using none by (simp add: getColumn_def wrapColumn_no_buffer UndefinedColumn_isDefined_def)
qed

theorem getColumn_without_buffer_witness:
  "distinct (map col_name
      [EncodedColumn ''a'' (EncodedData [ByteArray 4] (Some (Uint8Array [7] 0 1))) None,
       EncodedColumn ''b'' (EncodedData [Delta 0 3, ByteArray 99] None) None]) \<and>
   getColumn True (new_Category (EncodedCategory ''c'' 1
      [EncodedColumn ''a'' (EncodedData [ByteArray 4] (Some (Uint8Array [7] 0 1))) None,
       EncodedColumn ''b'' (EncodedData [Delta 0 3, ByteArray 99] None) None])) ''b''
     = Inr UndefinedColumn"
  using getColumn_without_buffer [of "EncodedCategory ''c'' 1
      [EncodedColumn ''a'' (EncodedData [ByteArray 4] (Some (Uint8Array [7] 0 1))) None,
       EncodedColumn ''b'' (EncodedData [Delta 0 3, ByteArray 99] None) None]"
      "EncodedColumn ''b'' (EncodedData [Delta 0 3, ByteArray 99] None) None" True]
  by simp

end
